theory Spec2Isabelle
  imports Main "HOL-Library.AList"
begin

section \<open>JavaScript values and errors\<close>

text \<open>
  The validator of \<^verbatim>\<open>src/config/index.ts\<close> receives \<^verbatim>\<open>config: unknown\<close>, the
  result of \<^verbatim>\<open>JSON.parse\<close>. Such a value is null, a boolean, a number, a string, an
  array or an object; reading a property that is not there gives \<^verbatim>\<open>undefined\<close>.
  An object is kept as the list of its own properties in the order \<^verbatim>\<open>Object.entries\<close>
  enumerates them. No check of the validator reads the value of a number: the payload
  only serves truthiness and equality of documents.
\<close>

datatype jsval =
    JUndefined
  | JNull
  | JBool bool
  | JNum int
  | JStr string
  | JArr "jsval list"
  | JObj "(string \<times> jsval) list"

text \<open>
  The errors that occur: the module's own class \<^verbatim>\<open>ConfigValidationError\<close>, the
  \<^verbatim>\<open>SyntaxError\<close> of \<^verbatim>\<open>JSON.parse\<close>, and a plain \<^verbatim>\<open>Error\<close>. Each carries
  its message.
\<close>

datatype js_error =
    ConfigValidationError string
  | SyntaxError string
  | Error string

fun message :: "js_error \<Rightarrow> string" where
  "message (ConfigValidationError m) = m"
| "message (SyntaxError m) = m"
| "message (Error m) = m"

fun typeof :: "jsval \<Rightarrow> string" where
  "typeof JUndefined = ''undefined''"
| "typeof JNull = ''object''"
| "typeof (JBool b) = ''boolean''"
| "typeof (JNum n) = ''number''"
| "typeof (JStr s) = ''string''"
| "typeof (JArr xs) = ''object''"
| "typeof (JObj kvs) = ''object''"

text \<open>\<^verbatim>\<open>!v\<close> is \<open>\<not> truthy v\<close>.\<close>

fun truthy :: "jsval \<Rightarrow> bool" where
  "truthy JUndefined = False"
| "truthy JNull = False"
| "truthy (JBool b) = b"
| "truthy (JNum n) = (n \<noteq> 0)"
| "truthy (JStr s) = (s \<noteq> [])"
| "truthy (JArr xs) = True"
| "truthy (JObj kvs) = True"

fun isArray :: "jsval \<Rightarrow> bool" where
  "isArray (JArr xs) = True"
| "isArray v = False"

subsection \<open>Numbers and lists in template literals\<close>

definition digit_char :: "nat \<Rightarrow> char" where
  "digit_char d = ''0123456789'' ! d"

text \<open>The decimal text of an array index, as \<^verbatim>\<open>`${index}`\<close> produces it.\<close>

fun string_of_nat :: "nat \<Rightarrow> string" where
  "string_of_nat n =
     (if n < 10 then [digit_char n] else string_of_nat (n div 10) @ [digit_char (n mod 10)])"

declare string_of_nat.simps [simp del]

text \<open>\<^verbatim>\<open>Array.prototype.join\<close> on an array of strings.\<close>

fun join :: "string \<Rightarrow> string list \<Rightarrow> string" where
  "join sep [] = []"
| "join sep [x] = x"
| "join sep (x # y # ys) = x @ sep @ join sep (y # ys)"

subsection \<open>Properties\<close>

text \<open>
  \<^verbatim>\<open>field in obj\<close> and \<^verbatim>\<open>obj[field]\<close> for the two kinds of value that pass the guard
  of \<^verbatim>\<open>validateObjectFields\<close>. The own properties of an array are its indices and
  \<^verbatim>\<open>length\<close>. Properties inherited from \<^verbatim>\<open>Object.prototype\<close> and
  \<^verbatim>\<open>Array.prototype\<close> (\<^verbatim>\<open>constructor\<close>, \<^verbatim>\<open>toString\<close>, ...) are left out: no field
  name that this module asks for is one of them. On the other values \<^verbatim>\<open>in\<close> is
  never evaluated (the guard comes first), and the functions give the answer for a value
  without properties.
\<close>

fun has_property :: "jsval \<Rightarrow> string \<Rightarrow> bool" where
  "has_property (JObj kvs) field = (field \<in> set (map fst kvs))"
| "has_property (JArr xs) field =
     (field = ''length'' \<or> field \<in> set (map string_of_nat [0..<length xs]))"
| "has_property v field = False"

fun lookup :: "jsval \<Rightarrow> string \<Rightarrow> jsval" where
  "lookup (JObj kvs) field = (case map_of kvs field of Some v \<Rightarrow> v | None \<Rightarrow> JUndefined)"
| "lookup (JArr xs) field =
     (if field = ''length'' then JNum (int (length xs))
      else case find (\<lambda>i. string_of_nat i = field) [0..<length xs] of
             Some i \<Rightarrow> xs ! i
           | None \<Rightarrow> JUndefined)"
| "lookup v field = JUndefined"

text \<open>
  After the top-level check the source reads the document through
  \<^verbatim>\<open>const typedConfig = config as IConfig\<close>: \<^verbatim>\<open>typedConfig.calendars.entries()\<close>,
  \<^verbatim>\<open>Object.entries(typedConfig.shifts)\<close>, and the strings \<^verbatim>\<open>shift.period.start\<close>,
  \<^verbatim>\<open>shift.period.end\<close> and \<^verbatim>\<open>typedConfig.timezone\<close>. The three functions below are
  these typed reads. Each is applied only where a field check has passed just before and
  has found an array, a non-array object or a string there (lemmas \<open>top_level_ok_iff\<close>
  and \<open>period_fields_ok_iff\<close>), so their last equations are never used by the
  validator.
\<close>

fun Object_entries :: "jsval \<Rightarrow> (string \<times> jsval) list" where
  "Object_entries (JObj kvs) = kvs"
| "Object_entries (JArr xs) = zip (map string_of_nat [0..<length xs]) xs"
| "Object_entries v = []"

fun array_entries :: "jsval \<Rightarrow> (nat \<times> jsval) list" where
  "array_entries (JArr xs) = zip [0..<length xs] xs"
| "array_entries v = []"

fun the_string :: "jsval \<Rightarrow> string" where
  "the_string (JStr s) = s"
| "the_string v = []"

section \<open>The time-of-day pattern\<close>

text \<open>
  A matcher for the fragment of regular expressions that
  \<^verbatim>\<open>/^([0-1][0-9]|2[0-3]):([0-5][0-9])$/\<close> uses: character classes, sequence and
  alternative. \<open>re_match r s\<close> lists what is left of \<open>s\<close> after each way of matching
  \<open>r\<close> at its start; with \<^verbatim>\<open>^\<close> and \<^verbatim>\<open>$\<close> (no \<^verbatim>\<open>m\<close> flag) the test succeeds
  when one of them leaves nothing.
\<close>

datatype regex =
    Class "char list"
  | Seq regex regex
  | Alt regex regex

fun re_match :: "regex \<Rightarrow> string \<Rightarrow> string list" where
  "re_match (Class cs) [] = []"
| "re_match (Class cs) (c # s) = (if c \<in> set cs then [s] else [])"
| "re_match (Seq a b) s = concat (map (re_match b) (re_match a s))"
| "re_match (Alt a b) s = re_match a s @ re_match b s"

definition re_test :: "regex \<Rightarrow> string \<Rightarrow> bool" where
  "re_test r s = ([] \<in> set (re_match r s))"

definition timeRegex :: regex where
  "timeRegex =
     Seq (Alt (Seq (Class ''01'') (Class ''0123456789''))
              (Seq (Class ''2'') (Class ''0123'')))
         (Seq (Class '':'')
              (Seq (Class ''012345'') (Class ''0123456789'')))"

text \<open>\<^verbatim>\<open>timeRegex.test(s)\<close> on a string.\<close>

definition timeRegex_test :: "string \<Rightarrow> bool" where
  "timeRegex_test s = re_test timeRegex s"

section \<open>The field checker and the enum checker\<close>

text \<open>
  The loop of \<^verbatim>\<open>validateObjectFields\<close> over \<^verbatim>\<open>Object.entries(fields)\<close>: the
  field specification is the list of its (name, kind) pairs as \<^verbatim>\<open>Object.entries\<close>
  enumerates them. \<^verbatim>\<open>validateObjectFields\<close> is private to the module, and
  \<^verbatim>\<open>validateConfig\<close> passes it four object literals. \<open>declared_field_names\<close> lists
  the names that occur in them. Each name occurs once in its literal, none is an integer
  index (which \<^verbatim>\<open>Object.entries\<close> would move to the front) and none is a member of
  \<^verbatim>\<open>Object.prototype\<close> or \<^verbatim>\<open>Array.prototype\<close> (which \<^verbatim>\<open>in\<close> would find in
  every object), so for these literals the order of enumeration is the order of the
  literal and \<open>has_property\<close> is \<^verbatim>\<open>in\<close>.
\<close>

definition declared_field_names :: "string list" where
  "declared_field_names =
     [''calendars'', ''shifts'', ''employees'', ''deletion_policy'', ''event_handling'',
      ''timezone'', ''calendar_id'', ''label'', ''color'', ''period'', ''start'', ''end'',
      ''duplicate_shifts'', ''overlapping_shifts'', ''api_failures'', ''partial_updates'',
      ''missing_employees'', ''extra_employees'']"

fun check_fields :: "jsval \<Rightarrow> (string \<times> string) list \<Rightarrow> string \<Rightarrow> js_error + unit" where
  "check_fields obj [] objName = Inr ()"
| "check_fields obj ((field, type) # rest) objName =
     (if \<not> has_property obj field then
        Inl (ConfigValidationError
               (''Missing required field '' @ [CHR 0x27] @ field @ [CHR 0x27] @ '' in '' @ objName))
      else
        let v = lookup obj field in
        if type = ''string'' \<and> typeof v \<noteq> ''string'' then
          Inl (ConfigValidationError
                 (''Field '' @ [CHR 0x27] @ field @ [CHR 0x27] @ '' in '' @ objName @ '' must be a string''))
        else if type = ''array'' \<and> \<not> isArray v then
          Inl (ConfigValidationError
                 (''Field '' @ [CHR 0x27] @ field @ [CHR 0x27] @ '' in '' @ objName @ '' must be an array''))
        else if type = ''object'' \<and> (\<not> truthy v \<or> typeof v \<noteq> ''object'' \<or> isArray v) then
          Inl (ConfigValidationError
                 (''Field '' @ [CHR 0x27] @ field @ [CHR 0x27] @ '' in '' @ objName @ '' must be an object''))
        else check_fields obj rest objName)"

definition validateObjectFields :: "jsval \<Rightarrow> (string \<times> string) list \<Rightarrow> string \<Rightarrow> js_error + unit" where
  "validateObjectFields obj fields objName =
     (if \<not> truthy obj \<or> typeof obj \<noteq> ''object'' then
        Inl (ConfigValidationError (objName @ '' must be an object''))
      else check_fields obj fields objName)"

text \<open>\<^verbatim>\<open>allowedValues.includes(value)\<close> on a string is membership by equality.\<close>

definition validateEnum :: "jsval \<Rightarrow> string list \<Rightarrow> string \<Rightarrow> js_error + unit" where
  "validateEnum v allowedValues fieldName =
     (if typeof v \<noteq> ''string'' \<or> \<not> (case v of JStr s \<Rightarrow> s \<in> set allowedValues | _ \<Rightarrow> False) then
        Inl (ConfigValidationError
               (''Invalid value for '' @ [CHR 0x27] @ fieldName @ [CHR 0x27] @ ''. Must be one of: ''
                  @ join '', '' allowedValues))
      else Inr ())"

section \<open>The configuration validator\<close>

text \<open>The loop over \<^verbatim>\<open>typedConfig.calendars.entries()\<close>.\<close>

fun validate_calendars :: "(nat \<times> jsval) list \<Rightarrow> js_error + unit" where
  "validate_calendars [] = Inr ()"
| "validate_calendars ((index, calendar) # rest) =
     (case validateObjectFields calendar
             [(''calendar_id'', ''string''), (''employees'', ''array'')]
             (''calendars['' @ string_of_nat index @ '']'') of
        Inl e \<Rightarrow> Inl e
      | Inr u \<Rightarrow> validate_calendars rest)"

text \<open>The body of the loop over \<^verbatim>\<open>Object.entries(typedConfig.shifts)\<close>, and the loop.\<close>

definition validate_shift :: "string \<Rightarrow> jsval \<Rightarrow> js_error + unit" where
  "validate_shift key shift =
     (case validateObjectFields shift
             [(''label'', ''string''), (''color'', ''string''), (''period'', ''object'')]
             (''shifts.'' @ key) of
        Inl e \<Rightarrow> Inl e
      | Inr u \<Rightarrow>
          (case validateObjectFields (lookup shift ''period'')
                  [(''start'', ''string''), (''end'', ''string'')]
                  (''shifts.'' @ key @ ''.period'') of
             Inl e \<Rightarrow> Inl e
           | Inr u \<Rightarrow>
               if \<not> timeRegex_test (the_string (lookup (lookup shift ''period'') ''start'')) then
                 Inl (ConfigValidationError
                        (''Invalid time format for shifts.'' @ key
                           @ ''.period.start. Must be HH:MM format.''))
               else if \<not> timeRegex_test (the_string (lookup (lookup shift ''period'') ''end'')) then
                 Inl (ConfigValidationError
                        (''Invalid time format for shifts.'' @ key
                           @ ''.period.end. Must be HH:MM format.''))
               else Inr ()))"

fun validate_shifts :: "(string \<times> jsval) list \<Rightarrow> js_error + unit" where
  "validate_shifts [] = Inr ()"
| "validate_shifts ((key, shift) # rest) =
     (case validate_shift key shift of
        Inl e \<Rightarrow> Inl e
      | Inr u \<Rightarrow> validate_shifts rest)"

text \<open>
  \<^verbatim>\<open>validateConfig\<close>. The parameter \<open>tz\<close> is the host: \<open>tz s\<close> holds when
  \<^verbatim>\<open>Intl.DateTimeFormat(undefined, { timeZone: s })\<close> returns without throwing.
\<close>

definition validateConfig :: "(string \<Rightarrow> bool) \<Rightarrow> jsval \<Rightarrow> js_error + unit" where
  "validateConfig tz config =
     (case validateObjectFields config
             [(''calendars'', ''array''), (''shifts'', ''object''), (''employees'', ''object''),
              (''deletion_policy'', ''string''), (''event_handling'', ''object''),
              (''timezone'', ''string'')]
             ''config'' of
        Inl e \<Rightarrow> Inl e
      | Inr u \<Rightarrow>
     (case validateEnum (lookup config ''deletion_policy'')
             [''full_sync'', ''preserve_manual'', ''append_only'']
             ''deletion_policy'' of
        Inl e \<Rightarrow> Inl e
      | Inr u \<Rightarrow>
     (case validate_calendars (array_entries (lookup config ''calendars'')) of
        Inl e \<Rightarrow> Inl e
      | Inr u \<Rightarrow>
     (case validate_shifts (Object_entries (lookup config ''shifts'')) of
        Inl e \<Rightarrow> Inl e
      | Inr u \<Rightarrow>
     (case validateObjectFields (lookup config ''event_handling'')
             [(''duplicate_shifts'', ''string''), (''overlapping_shifts'', ''string''),
              (''api_failures'', ''string''), (''partial_updates'', ''string''),
              (''missing_employees'', ''string''), (''extra_employees'', ''string'')]
             ''event_handling'' of
        Inl e \<Rightarrow> Inl e
      | Inr u \<Rightarrow>
     (case validateEnum (lookup (lookup config ''event_handling'') ''duplicate_shifts'')
             [''update'', ''skip'', ''create_new'']
             ''event_handling.duplicate_shifts'' of
        Inl e \<Rightarrow> Inl e
      | Inr u \<Rightarrow>
     (case validateEnum (lookup (lookup config ''event_handling'') ''overlapping_shifts'')
             [''error'', ''warn'', ''ignore'']
             ''event_handling.overlapping_shifts'' of
        Inl e \<Rightarrow> Inl e
      | Inr u \<Rightarrow>
     (case validateEnum (lookup (lookup config ''event_handling'') ''api_failures'')
             [''abort'', ''retry'', ''log_continue'']
             ''event_handling.api_failures'' of
        Inl e \<Rightarrow> Inl e
      | Inr u \<Rightarrow>
     (case validateEnum (lookup (lookup config ''event_handling'') ''partial_updates'')
             [''preserve_existing'', ''revert_all'', ''continue'']
             ''event_handling.partial_updates'' of
        Inl e \<Rightarrow> Inl e
      | Inr u \<Rightarrow>
     (case validateEnum (lookup (lookup config ''event_handling'') ''missing_employees'')
             [''error'', ''warn_continue'', ''skip'']
             ''event_handling.missing_employees'' of
        Inl e \<Rightarrow> Inl e
      | Inr u \<Rightarrow>
     (case validateEnum (lookup (lookup config ''event_handling'') ''extra_employees'')
             [''create'', ''warn'', ''ignore'']
             ''event_handling.extra_employees'' of
        Inl e \<Rightarrow> Inl e
      | Inr u \<Rightarrow>
          if tz (the_string (lookup config ''timezone'')) then Inr ()
          else Inl (ConfigValidationError
                      (''Invalid timezone: '' @ the_string (lookup config ''timezone'')))
     )))))))))))"

section \<open>The loader\<close>

text \<open>
  \<^verbatim>\<open>loadConfig\<close> awaits \<^verbatim>\<open>readFile(configPath, 'utf-8')\<close>, parses and validates
  inside \<^verbatim>\<open>try\<close>, and maps what was thrown in \<^verbatim>\<open>catch\<close>. The two host functions are
  parameters. \<open>readFile path\<close> is \<open>Inr\<close> of the file's text, or \<open>Inl\<close> of the message
  of the error the read was rejected with: a system error or a \<^verbatim>\<open>TypeError\<close> of
  \<^verbatim>\<open>node:fs/promises\<close>, which is neither a \<^verbatim>\<open>SyntaxError\<close> nor a
  \<^verbatim>\<open>ConfigValidationError\<close>, so \<open>Error\<close> stands for it. \<open>JSON_parse text\<close> is
  \<open>Inr\<close> of the parsed value, or \<open>Inl\<close> of the message of the \<^verbatim>\<open>SyntaxError\<close>.
\<close>

definition loadConfig_try ::
  "(string \<Rightarrow> string + string) \<Rightarrow> (string \<Rightarrow> string + jsval) \<Rightarrow> (string \<Rightarrow> bool) \<Rightarrow> string
     \<Rightarrow> js_error + jsval" where
  "loadConfig_try readFile JSON_parse tz configPath =
     (case readFile configPath of
        Inl m \<Rightarrow> Inl (Error m)
      | Inr configContent \<Rightarrow>
          (case JSON_parse configContent of
             Inl m \<Rightarrow> Inl (SyntaxError m)
           | Inr config \<Rightarrow>
               (case validateConfig tz config of
                  Inl e \<Rightarrow> Inl e
                | Inr u \<Rightarrow> Inr config)))"

fun loadConfig_catch :: "js_error \<Rightarrow> js_error" where
  "loadConfig_catch (SyntaxError m) =
     ConfigValidationError (''Invalid JSON in config file: '' @ m)"
| "loadConfig_catch (ConfigValidationError m) = ConfigValidationError m"
| "loadConfig_catch (Error m) = Error (''Failed to load config file: '' @ m)"

definition loadConfig ::
  "(string \<Rightarrow> string + string) \<Rightarrow> (string \<Rightarrow> string + jsval) \<Rightarrow> (string \<Rightarrow> bool) \<Rightarrow> string
     \<Rightarrow> js_error + jsval" where
  "loadConfig readFile JSON_parse tz configPath =
     (case loadConfig_try readFile JSON_parse tz configPath of
        Inl e \<Rightarrow> Inl (loadConfig_catch e)
      | Inr config \<Rightarrow> Inr config)"

section \<open>The specification's vocabulary\<close>

text \<open>
  The definitions of this section are not taken from the source. They state what the
  specification says, so that the code can be compared with it.
\<close>

subsection \<open>Coarse kinds\<close>

fun is_string :: "jsval \<Rightarrow> bool" where
  "is_string (JStr s) = True"
| "is_string v = False"

fun is_object :: "jsval \<Rightarrow> bool" where
  "is_object (JObj kvs) = True"
| "is_object v = False"

definition kind_ok :: "string \<Rightarrow> jsval \<Rightarrow> bool" where
  "kind_ok kind v =
     (if kind = ''string'' then is_string v
      else if kind = ''array'' then isArray v
      else if kind = ''object'' then is_object v
      else True)"

subsection \<open>The checks in the order of the specification\<close>

text \<open>
  \<open>first_error\<close> reads a list of check results from the left and stops at the first
  failure. \<open>checks_in_order\<close> lists the checks of section 4.3 of the specification:
  the top-level fields, the deletion policy, one check for each calendar by index, four
  checks for each shift (its fields, the fields of its period, the start time, the end
  time), the fields of \<^verbatim>\<open>event_handling\<close>, its six policies, and the timezone.
\<close>

fun first_error :: "(js_error + unit) list \<Rightarrow> js_error + unit" where
  "first_error [] = Inr ()"
| "first_error (Inl e # rs) = Inl e"
| "first_error (Inr u # rs) = first_error rs"

definition calendar_check :: "nat \<times> jsval \<Rightarrow> js_error + unit" where
  "calendar_check = (\<lambda>(index, calendar).
     validateObjectFields calendar
       [(''calendar_id'', ''string''), (''employees'', ''array'')]
       (''calendars['' @ string_of_nat index @ '']''))"

definition time_check :: "string \<Rightarrow> jsval \<Rightarrow> js_error + unit" where
  "time_check path v =
     (if timeRegex_test (the_string v) then Inr ()
      else Inl (ConfigValidationError
                  (''Invalid time format for '' @ path @ ''. Must be HH:MM format.'')))"

definition shift_checks :: "string \<times> jsval \<Rightarrow> (js_error + unit) list" where
  "shift_checks = (\<lambda>(key, shift).
     [validateObjectFields shift
        [(''label'', ''string''), (''color'', ''string''), (''period'', ''object'')]
        (''shifts.'' @ key),
      validateObjectFields (lookup shift ''period'')
        [(''start'', ''string''), (''end'', ''string'')]
        (''shifts.'' @ key @ ''.period''),
      time_check (''shifts.'' @ key @ ''.period.start'') (lookup (lookup shift ''period'') ''start''),
      time_check (''shifts.'' @ key @ ''.period.end'') (lookup (lookup shift ''period'') ''end'')])"

definition event_handling_enums :: "(string \<times> string list) list" where
  "event_handling_enums =
     [(''duplicate_shifts'', [''update'', ''skip'', ''create_new'']),
      (''overlapping_shifts'', [''error'', ''warn'', ''ignore'']),
      (''api_failures'', [''abort'', ''retry'', ''log_continue'']),
      (''partial_updates'', [''preserve_existing'', ''revert_all'', ''continue'']),
      (''missing_employees'', [''error'', ''warn_continue'', ''skip'']),
      (''extra_employees'', [''create'', ''warn'', ''ignore''])]"

definition enum_check :: "jsval \<Rightarrow> string \<times> string list \<Rightarrow> js_error + unit" where
  "enum_check event_handling = (\<lambda>(field, allowed).
     validateEnum (lookup event_handling field) allowed (''event_handling.'' @ field))"

definition timezone_check :: "(string \<Rightarrow> bool) \<Rightarrow> jsval \<Rightarrow> js_error + unit" where
  "timezone_check tz v =
     (if tz (the_string v) then Inr ()
      else Inl (ConfigValidationError (''Invalid timezone: '' @ the_string v)))"

definition checks_in_order :: "(string \<Rightarrow> bool) \<Rightarrow> jsval \<Rightarrow> (js_error + unit) list" where
  "checks_in_order tz config =
     [validateObjectFields config
        [(''calendars'', ''array''), (''shifts'', ''object''), (''employees'', ''object''),
         (''deletion_policy'', ''string''), (''event_handling'', ''object''),
         (''timezone'', ''string'')]
        ''config'',
      validateEnum (lookup config ''deletion_policy'')
        [''full_sync'', ''preserve_manual'', ''append_only''] ''deletion_policy'']
     @ map calendar_check (array_entries (lookup config ''calendars''))
     @ concat (map shift_checks (Object_entries (lookup config ''shifts'')))
     @ [validateObjectFields (lookup config ''event_handling'')
          (map (\<lambda>(field, allowed). (field, ''string'')) event_handling_enums)
          ''event_handling'']
     @ map (enum_check (lookup config ''event_handling'')) event_handling_enums
     @ [timezone_check tz (lookup config ''timezone'')]"

subsection \<open>Valid documents\<close>

text \<open>
  A document conforms when it satisfies every rule: the shape of the top level, of each
  calendar and of each shift, the time format, the seven enumerations, and a timezone
  that the host resolves.
\<close>

definition enum_member :: "jsval \<Rightarrow> string list \<Rightarrow> bool" where
  "enum_member v allowed = (case v of JStr s \<Rightarrow> s \<in> set allowed | _ \<Rightarrow> False)"

definition calendar_ok :: "jsval \<Rightarrow> bool" where
  "calendar_ok calendar \<longleftrightarrow>
     is_string (lookup calendar ''calendar_id'') \<and> isArray (lookup calendar ''employees'')"

definition shift_ok :: "jsval \<Rightarrow> bool" where
  "shift_ok shift \<longleftrightarrow>
     is_string (lookup shift ''label'') \<and> is_string (lookup shift ''color'') \<and>
     is_object (lookup shift ''period'') \<and>
     is_string (lookup (lookup shift ''period'') ''start'') \<and>
     is_string (lookup (lookup shift ''period'') ''end'') \<and>
     timeRegex_test (the_string (lookup (lookup shift ''period'') ''start'')) \<and>
     timeRegex_test (the_string (lookup (lookup shift ''period'') ''end''))"

definition conforms :: "(string \<Rightarrow> bool) \<Rightarrow> jsval \<Rightarrow> bool" where
  "conforms tz config \<longleftrightarrow>
     isArray (lookup config ''calendars'') \<and>
     is_object (lookup config ''shifts'') \<and>
     is_object (lookup config ''employees'') \<and>
     is_string (lookup config ''deletion_policy'') \<and>
     is_object (lookup config ''event_handling'') \<and>
     is_string (lookup config ''timezone'') \<and>
     enum_member (lookup config ''deletion_policy'')
       [''full_sync'', ''preserve_manual'', ''append_only''] \<and>
     list_all calendar_ok (map snd (array_entries (lookup config ''calendars''))) \<and>
     list_all shift_ok (map snd (Object_entries (lookup config ''shifts''))) \<and>
     list_all (\<lambda>(field, allowed). enum_member (lookup (lookup config ''event_handling'') field) allowed)
       event_handling_enums \<and>
     tz (the_string (lookup config ''timezone''))"

subsection \<open>Error kinds\<close>

text \<open>\<^verbatim>\<open>e instanceof ConfigValidationError\<close>.\<close>

fun is_ConfigValidationError :: "js_error \<Rightarrow> bool" where
  "is_ConfigValidationError (ConfigValidationError m) = True"
| "is_ConfigValidationError e = False"

subsection \<open>Documents of the right shape\<close>

text \<open>
  A document has the right shape when every rule but the enumerations and the timezone
  holds: the top-level fields, the calendars, the shifts, and six strings under
  \<^verbatim>\<open>event_handling\<close>.
\<close>

definition shape_ok :: "jsval \<Rightarrow> bool" where
  "shape_ok config \<longleftrightarrow>
     isArray (lookup config ''calendars'') \<and>
     is_object (lookup config ''shifts'') \<and>
     is_object (lookup config ''employees'') \<and>
     is_string (lookup config ''deletion_policy'') \<and>
     is_object (lookup config ''event_handling'') \<and>
     is_string (lookup config ''timezone'') \<and>
     list_all calendar_ok (map snd (array_entries (lookup config ''calendars''))) \<and>
     list_all shift_ok (map snd (Object_entries (lookup config ''shifts''))) \<and>
     list_all (\<lambda>(field, allowed). is_string (lookup (lookup config ''event_handling'') field))
       event_handling_enums"

subsection \<open>The first offending field\<close>

text \<open>
  What the field checker reports for one declared field of a value that is an object:
  nothing, or the message for a missing field, or the message for a field of the wrong
  kind. The messages are the ones of the code: "a string", "an array", "an object".
  \<open>first_some\<close> takes the first message of a list.
\<close>

definition field_error :: "jsval \<Rightarrow> string \<Rightarrow> string \<times> string \<Rightarrow> string option" where
  "field_error obj contextLabel = (\<lambda>(field, kind).
     if \<not> has_property obj field then
       Some (''Missing required field '' @ [CHR 0x27] @ field @ [CHR 0x27] @ '' in '' @ contextLabel)
     else if kind = ''string'' \<and> \<not> is_string (lookup obj field) then
       Some (''Field '' @ [CHR 0x27] @ field @ [CHR 0x27] @ '' in '' @ contextLabel
               @ '' must be a string'')
     else if kind = ''array'' \<and> \<not> isArray (lookup obj field) then
       Some (''Field '' @ [CHR 0x27] @ field @ [CHR 0x27] @ '' in '' @ contextLabel
               @ '' must be an array'')
     else if kind = ''object'' \<and> \<not> is_object (lookup obj field) then
       Some (''Field '' @ [CHR 0x27] @ field @ [CHR 0x27] @ '' in '' @ contextLabel
               @ '' must be an object'')
     else None)"

fun first_some :: "'a option list \<Rightarrow> 'a option" where
  "first_some [] = None"
| "first_some (Some x # rest) = Some x"
| "first_some (None # rest) = first_some rest"

text \<open>
  The message for a field of the wrong kind as the specification's template spells it:
  "must be a " followed by the kind.
\<close>

definition claimed_kind_message :: "string \<Rightarrow> string \<Rightarrow> string \<Rightarrow> string" where
  "claimed_kind_message field contextLabel kind =
     ''Field '' @ [CHR 0x27] @ field @ [CHR 0x27] @ '' in '' @ contextLabel @ '' must be a '' @ kind"

subsection \<open>Times of day\<close>

text \<open>A number below 100 as two decimal digits: the HH and the MM of a time.\<close>

definition two_digits :: "nat \<Rightarrow> string" where
  "two_digits n = [digit_char (n div 10), digit_char (n mod 10)]"

subsection \<open>Documents that differ in one field\<close>

text \<open>
  \<open>set_property obj field v\<close> is the object \<open>obj\<close> with \<open>v\<close> as the value of
  \<open>field\<close>, all other properties and their order kept.
\<close>

fun set_property :: "jsval \<Rightarrow> string \<Rightarrow> jsval \<Rightarrow> jsval" where
  "set_property (JObj kvs) field v = JObj (AList.update field v kvs)"
| "set_property obj field v = obj"

section \<open>Sample documents and hosts\<close>

text \<open>A host that resolves two timezone names.\<close>

definition sample_tz :: "string \<Rightarrow> bool" where
  "sample_tz s = (s \<in> set [''Europe/Madrid'', ''UTC''])"

text \<open>The valid document of the test suite (\<^verbatim>\<open>src/config/index.spec.ts\<close>).\<close>

definition validShifts :: jsval where
  "validShifts = JObj
     [(''M'', JObj [(''label'', JStr ''Morning Shift''), (''color'', JStr ''#FFD700''),
                    (''period'', JObj [(''start'', JStr ''08:00''), (''end'', JStr ''16:00'')])]),
      (''N'', JObj [(''label'', JStr ''Night Shift''), (''color'', JStr ''#483D8B''),
                    (''period'', JObj [(''start'', JStr ''22:00''), (''end'', JStr ''06:00'')])])]"

definition validEventHandling :: jsval where
  "validEventHandling = JObj
     [(''duplicate_shifts'', JStr ''update''),
      (''overlapping_shifts'', JStr ''error''),
      (''api_failures'', JStr ''log_continue''),
      (''partial_updates'', JStr ''preserve_existing''),
      (''missing_employees'', JStr ''warn_continue''),
      (''extra_employees'', JStr ''ignore'')]"

definition validFields :: "(string \<times> jsval) list" where
  "validFields =
     [(''calendars'', JArr [JObj [(''calendar_id'', JStr ''jane.doe@example.com''),
                                 (''employees'', JArr [JStr ''Jane Doe''])]]),
      (''shifts'', validShifts),
      (''employees'', JObj [(''Jane Doe'', JObj [(''color'', JStr ''#FF5733'')])]),
      (''deletion_policy'', JStr ''full_sync''),
      (''event_handling'', validEventHandling),
      (''timezone'', JStr ''Europe/Madrid'')]"

definition validConfig :: jsval where
  "validConfig = JObj validFields"

text \<open>The valid document with one more top-level field.\<close>

definition validConfigWithNotes :: jsval where
  "validConfigWithNotes = JObj (validFields @ [(''notes'', JStr ''kept'')])"

text \<open>The test document for an unknown timezone.\<close>

definition badTimezone :: jsval where
  "badTimezone = JObj
     [(''calendars'', JArr [JObj [(''calendar_id'', JStr ''jane.doe@example.com''),
                                 (''employees'', JArr [JStr ''Jane Doe''])]]),
      (''shifts'', validShifts),
      (''employees'', JObj [(''Jane Doe'', JObj [(''color'', JStr ''#FF5733'')])]),
      (''deletion_policy'', JStr ''full_sync''),
      (''event_handling'', validEventHandling),
      (''timezone'', JStr ''Invalid/Timezone'')]"

text \<open>
  A document with three defects: an unknown deletion policy, a start time without its
  leading zero, and an unknown timezone.
\<close>

definition threeDefects :: jsval where
  "threeDefects = JObj
     [(''calendars'', JArr [JObj [(''calendar_id'', JStr ''jane.doe@example.com''),
                                 (''employees'', JArr [JStr ''Jane Doe''])]]),
      (''shifts'', JObj
         [(''M'', JObj [(''label'', JStr ''Morning Shift''), (''color'', JStr ''#FFD700''),
                        (''period'', JObj [(''start'', JStr ''8:00''), (''end'', JStr ''16:00'')])])]),
      (''employees'', JObj []),
      (''deletion_policy'', JStr ''invalid_policy''),
      (''event_handling'', validEventHandling),
      (''timezone'', JStr ''Invalid/Timezone'')]"

text \<open>
  A file system with one unreadable path, one file that is not JSON and three files with the
  documents above, and a parser for their texts (the documents are named, not spelled
  out).
\<close>

definition sample_readFile :: "string \<Rightarrow> string + string" where
  "sample_readFile path =
     (if path = ''missing.json'' then Inl ''File not found''
      else if path = ''broken.json'' then Inr ''{ invalid: json }''
      else if path = ''defects.json'' then Inr ''<threeDefects>''
      else if path = ''notes.json'' then Inr ''<validConfigWithNotes>''
      else Inr ''<validConfig>'')"

definition sample_JSON_parse :: "string \<Rightarrow> string + jsval" where
  "sample_JSON_parse content =
     (if content = ''{ invalid: json }'' then Inl ''Unexpected token i in JSON at position 2''
      else if content = ''<threeDefects>'' then Inr threeDefects
      else if content = ''<validConfigWithNotes>'' then Inr validConfigWithNotes
      else Inr validConfig)"

text \<open>
  A valid shape with two policies outside their enumerations; the first differs from
  an allowed value only in the case of a letter.
\<close>

definition caseVariant :: jsval where
  "caseVariant = JObj
     [(''calendars'', JArr []),
      (''shifts'', JObj []),
      (''employees'', JObj []),
      (''deletion_policy'', JStr ''full_sync''),
      (''event_handling'', JObj
         [(''duplicate_shifts'', JStr ''Update''),
          (''overlapping_shifts'', JStr ''error''),
          (''api_failures'', JStr ''log_continue''),
          (''partial_updates'', JStr ''preserve_existing''),
          (''missing_employees'', JStr ''warn_continue''),
          (''extra_employees'', JStr ''nothing'')]),
      (''timezone'', JStr ''Europe/Madrid'')]"

text \<open>
  An object with an array where an object is declared, a number where a string is
  declared, and three declared fields missing.
\<close>

definition twoOffending :: jsval where
  "twoOffending = JObj [(''calendars'', JArr []), (''shifts'', JArr []), (''timezone'', JNum 1)]"

text \<open>
  The night shift of the valid document, whose period ends before it starts, and the
  morning shift of the test for the time format, whose start has no leading zero.
\<close>

definition nightShift :: jsval where
  "nightShift = JObj [(''label'', JStr ''Night Shift''), (''color'', JStr ''#483D8B''),
                      (''period'', JObj [(''start'', JStr ''22:00''), (''end'', JStr ''06:00'')])]"

definition earlyShift :: jsval where
  "earlyShift = JObj [(''label'', JStr ''Morning Shift''), (''color'', JStr ''#FFD700''),
                      (''period'', JObj [(''start'', JStr ''8:00''), (''end'', JStr ''16:00'')])]"

text \<open>
  The valid document with a number and null as values of the \<^verbatim>\<open>employees\<close> mapping
  and with a number, null and an object in the \<^verbatim>\<open>employees\<close> array of its calendar.
\<close>

definition oddEmployees :: jsval where
  "oddEmployees = JObj
     [(''calendars'', JArr [JObj [(''calendar_id'', JStr ''jane.doe@example.com''),
                                 (''employees'', JArr [JNum 1, JNull, JObj []])]]),
      (''shifts'', validShifts),
      (''employees'', JObj [(''Jane Doe'', JNum 42), (''nobody'', JNull)]),
      (''deletion_policy'', JStr ''full_sync''),
      (''event_handling'', validEventHandling),
      (''timezone'', JStr ''Europe/Madrid'')]"

text \<open>
  The valid document with the start of its morning shift written without the leading
  zero.
\<close>

definition earlyStart :: jsval where
  "earlyStart = JObj
     [(''calendars'', JArr [JObj [(''calendar_id'', JStr ''jane.doe@example.com''),
                                 (''employees'', JArr [JStr ''Jane Doe''])]]),
      (''shifts'', JObj
         [(''M'', JObj [(''label'', JStr ''Morning Shift''), (''color'', JStr ''#FFD700''),
                        (''period'', JObj [(''start'', JStr ''8:00''), (''end'', JStr ''16:00'')])]),
          (''N'', JObj [(''label'', JStr ''Night Shift''), (''color'', JStr ''#483D8B''),
                        (''period'', JObj [(''start'', JStr ''22:00''), (''end'', JStr ''06:00'')])])]),
      (''employees'', JObj [(''Jane Doe'', JObj [(''color'', JStr ''#FF5733'')])]),
      (''deletion_policy'', JStr ''full_sync''),
      (''event_handling'', validEventHandling),
      (''timezone'', JStr ''Europe/Madrid'')]"

section \<open>Properties of the checkers\<close>

lemma typeof_string_iff: "typeof v = ''string'' \<longleftrightarrow> is_string v"
  by (cases v) simp_all

lemma object_test_iff: "(truthy v \<and> typeof v = ''object'' \<and> \<not> isArray v) \<longleftrightarrow> is_object v"
  by (cases v) simp_all

lemma guard_iff: "(truthy v \<and> typeof v = ''object'') \<longleftrightarrow> (isArray v \<or> is_object v)"
  by (cases v) simp_all

lemma absent_lookup: "\<not> has_property obj f \<Longrightarrow> lookup obj f = JUndefined"
proof (cases obj)
  case (JObj kvs)
  assume "\<not> has_property obj f"
  with JObj have "map_of kvs f = None" by (simp add: map_of_eq_None_iff)
  with JObj show ?thesis by simp
next
  case (JArr xs)
  assume "\<not> has_property obj f"
  with JArr have "f \<noteq> ''length''" and "find (\<lambda>i. string_of_nat i = f) [0..<length xs] = None"
    by (auto simp: find_None_iff)
  with JArr show ?thesis by simp
qed simp_all

lemma check_fields_ok_iff:
  "check_fields obj fields objName = Inr () \<longleftrightarrow>
     list_all (\<lambda>(f, k). has_property obj f \<and> kind_ok k (lookup obj f)) fields"
proof (induction fields)
  case Nil
  show ?case by simp
next
  case (Cons fk fields)
  obtain f k where fk: "fk = (f, k)" by (cases fk)
  show ?case
    unfolding fk using Cons.IH
    by (simp add: kind_ok_def typeof_string_iff object_test_iff [symmetric] Let_def)
qed

lemma validateObjectFields_ok_iff:
  "validateObjectFields obj fields objName = Inr () \<longleftrightarrow>
     (isArray obj \<or> is_object obj) \<and>
     list_all (\<lambda>(f, k). has_property obj f \<and> kind_ok k (lookup obj f)) fields"
  unfolding validateObjectFields_def
  using guard_iff [of obj] check_fields_ok_iff [of obj fields objName] by auto

lemma digit_char_in: "d < 10 \<Longrightarrow> digit_char d \<in> set ''0123456789''"
proof -
  assume "d < 10"
  then have "d \<in> {0,1,2,3,4,5,6,7,8,9}" by auto
  then show ?thesis unfolding digit_char_def by auto
qed

lemma string_of_nat_digits: "set (string_of_nat n) \<subseteq> set ''0123456789''"
proof (induction n rule: string_of_nat.induct)
  case (1 n)
  show ?case
  proof (cases "n < 10")
    case True
    then show ?thesis using digit_char_in [of n] by (subst string_of_nat.simps) simp
  next
    case False
    have "n mod 10 < 10" by simp
    then have "digit_char (n mod 10) \<in> set ''0123456789''" by (rule digit_char_in)
    with False 1 show ?thesis by (subst string_of_nat.simps) simp
  qed
qed

lemma first_error_append:
  "first_error (rs @ rs') = (case first_error rs of Inl e \<Rightarrow> Inl e | Inr u \<Rightarrow> first_error rs')"
  by (induction rs rule: first_error.induct) simp_all

lemma first_error_Cons:
  "first_error (r # rs) = (case r of Inl e \<Rightarrow> Inl e | Inr u \<Rightarrow> first_error rs)"
  by (cases r) simp_all

lemma first_error_at:
  "i < length rs \<Longrightarrow> rs ! i = Inl e \<Longrightarrow> \<forall>j<i. rs ! j = Inr () \<Longrightarrow> first_error rs = Inl e"
proof (induction rs arbitrary: i)
  case Nil
  then show ?case by simp
next
  case (Cons r rs)
  show ?case
  proof (cases i)
    case 0
    with Cons.prems show ?thesis by simp
  next
    case (Suc k)
    with Cons.prems have r: "r = Inr ()" by auto
    from Suc Cons.prems have "k < length rs" "rs ! k = Inl e" "\<forall>j<k. rs ! j = Inr ()" by auto
    then have "first_error rs = Inl e" by (rule Cons.IH)
    with r show ?thesis by simp
  qed
qed

lemma first_error_ok_iff: "first_error rs = Inr () \<longleftrightarrow> (\<forall>r\<in>set rs. r = Inr ())"
  by (induction rs rule: first_error.induct) simp_all

lemma validate_calendars_first_error:
  "validate_calendars es = first_error (map calendar_check es)"
  by (induction es) (auto simp: calendar_check_def first_error_Cons split: sum.split)

lemma validate_shift_first_error:
  "validate_shift key shift = first_error (shift_checks (key, shift))"
  by (simp add: validate_shift_def shift_checks_def time_check_def first_error_Cons split: sum.split)

lemma validate_shifts_first_error:
  "validate_shifts es = first_error (concat (map shift_checks es))"
  by (induction es) (auto simp: validate_shift_first_error first_error_append split: sum.split)

lemma validateConfig_first_error:
  "validateConfig tz config = first_error (checks_in_order tz config)"
  unfolding validateConfig_def checks_in_order_def
  by (simp add: validate_calendars_first_error validate_shifts_first_error first_error_append
        first_error_Cons event_handling_enums_def enum_check_def timezone_check_def
      split: sum.split)

lemma validateEnum_ok_iff:
  "validateEnum v allowed fieldName = Inr () \<longleftrightarrow> enum_member v allowed"
  by (cases v) (simp_all add: validateEnum_def enum_member_def)

lemma string_field_iff:
  "has_property obj f \<and> kind_ok ''string'' (lookup obj f) \<longleftrightarrow> is_string (lookup obj f)"
  using absent_lookup [of obj f] by (cases "has_property obj f") (auto simp: kind_ok_def)

lemma array_field_iff:
  "has_property obj f \<and> kind_ok ''array'' (lookup obj f) \<longleftrightarrow> isArray (lookup obj f)"
  using absent_lookup [of obj f] by (cases "has_property obj f") (auto simp: kind_ok_def)

lemma object_field_iff:
  "has_property obj f \<and> kind_ok ''object'' (lookup obj f) \<longleftrightarrow> is_object (lookup obj f)"
  using absent_lookup [of obj f] by (cases "has_property obj f") (auto simp: kind_ok_def)

lemmas field_iffs = string_field_iff array_field_iff object_field_iff

lemma string_field_receiver: "is_string (lookup obj f) \<Longrightarrow> isArray obj \<or> is_object obj"
  by (cases obj) simp_all

lemma array_field_receiver: "isArray (lookup obj f) \<Longrightarrow> isArray obj \<or> is_object obj"
  by (cases obj) simp_all

lemma top_level_ok_iff:
  "validateObjectFields config
     [(''calendars'', ''array''), (''shifts'', ''object''), (''employees'', ''object''),
      (''deletion_policy'', ''string''), (''event_handling'', ''object''),
      (''timezone'', ''string'')] objName = Inr () \<longleftrightarrow>
   isArray (lookup config ''calendars'') \<and> is_object (lookup config ''shifts'') \<and>
   is_object (lookup config ''employees'') \<and> is_string (lookup config ''deletion_policy'') \<and>
   is_object (lookup config ''event_handling'') \<and> is_string (lookup config ''timezone'')"
  using array_field_receiver [of config "''calendars''"]
  by (simp add: validateObjectFields_ok_iff field_iffs) blast

lemma calendar_ok_iff:
  "validateObjectFields calendar [(''calendar_id'', ''string''), (''employees'', ''array'')] objName
     = Inr () \<longleftrightarrow> calendar_ok calendar"
  using array_field_receiver [of calendar "''employees''"]
  by (simp add: validateObjectFields_ok_iff field_iffs calendar_ok_def) blast

lemma shift_fields_ok_iff:
  "validateObjectFields shift
     [(''label'', ''string''), (''color'', ''string''), (''period'', ''object'')] objName = Inr ()
   \<longleftrightarrow> is_string (lookup shift ''label'') \<and> is_string (lookup shift ''color'') \<and>
       is_object (lookup shift ''period'')"
  using string_field_receiver [of shift "''label''"]
  by (simp add: validateObjectFields_ok_iff field_iffs) blast

lemma period_fields_ok_iff:
  "validateObjectFields period [(''start'', ''string''), (''end'', ''string'')] objName = Inr ()
   \<longleftrightarrow> is_string (lookup period ''start'') \<and> is_string (lookup period ''end'')"
  using string_field_receiver [of period "''start''"]
  by (simp add: validateObjectFields_ok_iff field_iffs) blast

lemma event_handling_fields_ok_iff:
  "validateObjectFields eh (map (\<lambda>(field, allowed). (field, ''string'')) event_handling_enums)
     objName = Inr ()
   \<longleftrightarrow> list_all (\<lambda>(field, allowed). is_string (lookup eh field)) event_handling_enums"
  using string_field_receiver [of eh "''duplicate_shifts''"]
  by (simp add: validateObjectFields_ok_iff field_iffs event_handling_enums_def) blast

lemma enum_member_string: "enum_member v allowed \<Longrightarrow> is_string v"
  by (cases v) (simp_all add: enum_member_def)

lemma shift_ok_iff: "(\<forall>r\<in>set (shift_checks (key, shift)). r = Inr ()) \<longleftrightarrow> shift_ok shift"
  by (simp add: shift_checks_def shift_fields_ok_iff period_fields_ok_iff
        time_check_def shift_ok_def)

lemma shifts_ok_iff:
  "first_error (concat (map shift_checks es)) = Inr () \<longleftrightarrow> list_all shift_ok (map snd es)"
proof -
  have "first_error (concat (map shift_checks es)) = Inr () \<longleftrightarrow>
      (\<forall>e\<in>set es. \<forall>r\<in>set (shift_checks e). r = Inr ())"
    by (simp add: first_error_ok_iff)
  also have "\<dots> \<longleftrightarrow> (\<forall>e\<in>set es. shift_ok (snd e))"
    using shift_ok_iff by (metis prod.collapse)
  finally show ?thesis by (simp add: list_all_iff)
qed

lemma calendars_ok_iff:
  "first_error (map calendar_check es) = Inr () \<longleftrightarrow> list_all calendar_ok (map snd es)"
proof -
  have "calendar_check e = Inr () \<longleftrightarrow> calendar_ok (snd e)" for e
    by (cases e) (simp add: calendar_check_def calendar_ok_iff)
  then show ?thesis by (simp add: first_error_ok_iff list_all_iff)
qed

lemma first_error_Cons_ok:
  "first_error (r # rs) = Inr () \<longleftrightarrow> r = Inr () \<and> first_error rs = Inr ()"
  by (cases r) simp_all

lemma first_error_append_ok:
  "first_error (rs @ rs') = Inr () \<longleftrightarrow> first_error rs = Inr () \<and> first_error rs' = Inr ()"
  by (induction rs) (simp_all add: first_error_Cons_ok)

lemma validateConfig_ok_iff: "validateConfig tz config = Inr () \<longleftrightarrow> conforms tz config"
proof -
  let ?eh = "lookup config ''event_handling''"
  have enums: "first_error (map (enum_check ?eh) event_handling_enums) = Inr () \<longleftrightarrow>
      list_all (\<lambda>(field, allowed). enum_member (lookup ?eh field) allowed) event_handling_enums"
    by (simp add: first_error_ok_iff enum_check_def validateEnum_ok_iff list_all_iff
          case_prod_unfold)
  have strs: "list_all (\<lambda>(field, allowed). enum_member (lookup ?eh field) allowed) event_handling_enums
      \<Longrightarrow> list_all (\<lambda>(field, allowed). is_string (lookup ?eh field)) event_handling_enums"
    using enum_member_string by (auto simp: list_all_iff)
  have tzc: "timezone_check tz (lookup config ''timezone'') = Inr () \<longleftrightarrow>
      tz (the_string (lookup config ''timezone''))"
    by (simp add: timezone_check_def)
  have "validateConfig tz config = Inr () \<longleftrightarrow>
      (isArray (lookup config ''calendars'') \<and> is_object (lookup config ''shifts'') \<and>
       is_object (lookup config ''employees'') \<and> is_string (lookup config ''deletion_policy'') \<and>
       is_object (lookup config ''event_handling'') \<and> is_string (lookup config ''timezone'')) \<and>
      enum_member (lookup config ''deletion_policy'')
        [''full_sync'', ''preserve_manual'', ''append_only''] \<and>
      list_all calendar_ok (map snd (array_entries (lookup config ''calendars''))) \<and>
      list_all shift_ok (map snd (Object_entries (lookup config ''shifts''))) \<and>
      list_all (\<lambda>(field, allowed). is_string (lookup ?eh field)) event_handling_enums \<and>
      list_all (\<lambda>(field, allowed). enum_member (lookup ?eh field) allowed) event_handling_enums \<and>
      tz (the_string (lookup config ''timezone''))"
    unfolding validateConfig_first_error checks_in_order_def first_error_append_ok
      first_error_Cons_ok top_level_ok_iff validateEnum_ok_iff calendars_ok_iff shifts_ok_iff
      event_handling_fields_ok_iff enums tzc
    by simp
  with strs show ?thesis unfolding conforms_def by blast
qed

lemma first_error_mem: "first_error rs = Inl e \<Longrightarrow> Inl e \<in> set rs"
  by (induction rs rule: first_error.induct) auto

lemma check_fields_error_kind:
  "check_fields obj fields objName = Inl e \<Longrightarrow> is_ConfigValidationError e"
proof (induction fields)
  case Nil
  then show ?case by simp
next
  case (Cons fk fields)
  obtain f k where fk: "fk = (f, k)" by (cases fk)
  from Cons show ?case unfolding fk by (auto simp: Let_def split: if_splits)
qed

lemma validateObjectFields_error_kind:
  "validateObjectFields obj fields objName = Inl e \<Longrightarrow> is_ConfigValidationError e"
  by (auto simp: validateObjectFields_def check_fields_error_kind split: if_splits)

lemma validateEnum_error_kind:
  "validateEnum v allowed fieldName = Inl e \<Longrightarrow> is_ConfigValidationError e"
  by (auto simp: validateEnum_def split: if_splits)


lemma time_check_error_kind: "time_check p v = Inl e \<Longrightarrow> is_ConfigValidationError e"
  by (cases "timeRegex_test (the_string v)") (auto simp: time_check_def)

lemma timezone_check_error_kind: "timezone_check tz v = Inl e \<Longrightarrow> is_ConfigValidationError e"
  by (cases "tz (the_string v)") (auto simp: timezone_check_def)

lemma calendar_check_error_kind: "calendar_check ic = Inl e \<Longrightarrow> is_ConfigValidationError e"
  by (cases ic) (auto simp: calendar_check_def dest: validateObjectFields_error_kind)

lemma enum_check_error_kind: "enum_check eh fa = Inl e \<Longrightarrow> is_ConfigValidationError e"
  by (cases fa) (auto simp: enum_check_def dest: validateEnum_error_kind)

lemma shift_checks_error_kind:
  assumes "Inl e \<in> set (shift_checks ks)"
  shows "is_ConfigValidationError e"
proof -
  obtain key shift where ks: "ks = (key, shift)" by (cases ks)
  let ?a = "validateObjectFields shift
        [(''label'', ''string''), (''color'', ''string''), (''period'', ''object'')]
        (''shifts.'' @ key)"
  let ?b = "validateObjectFields (lookup shift ''period'')
        [(''start'', ''string''), (''end'', ''string'')]
        (''shifts.'' @ key @ ''.period'')"
  let ?c = "time_check (''shifts.'' @ key @ ''.period.start'') (lookup (lookup shift ''period'') ''start'')"
  let ?d = "time_check (''shifts.'' @ key @ ''.period.end'') (lookup (lookup shift ''period'') ''end'')"
  have "shift_checks ks = [?a, ?b, ?c, ?d]" by (simp add: ks shift_checks_def)
  with assms have "?a = Inl e \<or> ?b = Inl e \<or> ?c = Inl e \<or> ?d = Inl e"
    by (simp only: list.set insert_iff empty_iff) metis
  then show ?thesis
    using validateObjectFields_error_kind time_check_error_kind by blast
qed

lemma checks_in_order_error_kind:
  assumes "Inl e \<in> set (checks_in_order tz config)"
  shows "is_ConfigValidationError e"
proof -
  let ?top = "validateObjectFields config
        [(''calendars'', ''array''), (''shifts'', ''object''), (''employees'', ''object''),
         (''deletion_policy'', ''string''), (''event_handling'', ''object''),
         (''timezone'', ''string'')]
        ''config''"
  let ?dp = "validateEnum (lookup config ''deletion_policy'')
        [''full_sync'', ''preserve_manual'', ''append_only''] ''deletion_policy''"
  let ?cals = "map calendar_check (array_entries (lookup config ''calendars''))"
  let ?shifts = "concat (map shift_checks (Object_entries (lookup config ''shifts'')))"
  let ?eh = "validateObjectFields (lookup config ''event_handling'')
          (map (\<lambda>(field, allowed). (field, ''string'')) event_handling_enums)
          ''event_handling''"
  let ?enums = "map (enum_check (lookup config ''event_handling'')) event_handling_enums"
  let ?tz = "timezone_check tz (lookup config ''timezone'')"
  have "checks_in_order tz config = [?top, ?dp] @ ?cals @ ?shifts @ [?eh] @ ?enums @ [?tz]"
    by (simp only: checks_in_order_def)
  with assms have "Inl e \<in> set ([?top, ?dp] @ ?cals @ ?shifts @ [?eh] @ ?enums @ [?tz])"
    by simp
  then consider "?top = Inl e" | "?dp = Inl e" | "Inl e \<in> set ?cals" | "Inl e \<in> set ?shifts"
    | "?eh = Inl e" | "Inl e \<in> set ?enums" | "?tz = Inl e"
    unfolding set_append Un_iff by (simp only: list.set insert_iff empty_iff) metis
  then show ?thesis
  proof cases
    case 1 then show ?thesis by (rule validateObjectFields_error_kind)
  next
    case 2 then show ?thesis by (rule validateEnum_error_kind)
  next
    case 3
    then obtain ic where "calendar_check ic = Inl e" by auto
    then show ?thesis by (rule calendar_check_error_kind)
  next
    case 4
    then obtain ks where "Inl e \<in> set (shift_checks ks)" by auto
    then show ?thesis by (rule shift_checks_error_kind)
  next
    case 5 then show ?thesis by (rule validateObjectFields_error_kind)
  next
    case 6
    then obtain fa where "enum_check (lookup config ''event_handling'') fa = Inl e" by auto
    then show ?thesis by (rule enum_check_error_kind)
  next
    case 7 then show ?thesis by (rule timezone_check_error_kind)
  qed
qed

lemma validateConfig_error_kind:
  "validateConfig tz config = Inl e \<Longrightarrow> is_ConfigValidationError e"
  using first_error_mem [of "checks_in_order tz config" e] checks_in_order_error_kind
  by (simp add: validateConfig_first_error)

lemma calendars_not_index: "''calendars'' \<notin> set (map string_of_nat ns)"
proof
  assume "''calendars'' \<in> set (map string_of_nat ns)"
  then obtain n where "string_of_nat n = ''calendars''" by auto
  with string_of_nat_digits [of n] show False by auto
qed

section \<open>Claims\<close>

text \<open>
  C2. \<^verbatim>\<open>validateConfig\<close> performs its checks in the order of the specification and
  stops at the first violation: its result is the first failure in the list
  \<open>checks_in_order\<close>, so when a check fails and every check before it passes, the
  error of that check is the one reported, whatever the checks after it would say.
\<close>

theorem validateConfig_reports_first_violation:
  "validateConfig tz config = first_error (checks_in_order tz config) \<and>
   (\<forall>i e. i < length (checks_in_order tz config) \<and>
          checks_in_order tz config ! i = Inl e \<and>
          (\<forall>j<i. checks_in_order tz config ! j = Inr ())
       \<longrightarrow> validateConfig tz config = Inl e)"
proof (intro conjI allI impI)
  show "validateConfig tz config = first_error (checks_in_order tz config)"
    by (rule validateConfig_first_error)
next
  fix i e
  assume "i < length (checks_in_order tz config) \<and>
          checks_in_order tz config ! i = Inl e \<and>
          (\<forall>j<i. checks_in_order tz config ! j = Inr ())"
  then have "first_error (checks_in_order tz config) = Inl e"
    using first_error_at [of i "checks_in_order tz config" e] by blast
  then show "validateConfig tz config = Inl e"
    by (simp add: validateConfig_first_error)
qed

text \<open>
  The document \<open>threeDefects\<close> fails the checks 1, 5 and 14 of the list; the error
  reported is that of check 1, the deletion policy.
\<close>

theorem validateConfig_reports_first_violation_witness:
  "checks_in_order sample_tz threeDefects ! 1 =
     Inl (ConfigValidationError
            ''Invalid value for 'deletion_policy'. Must be one of: full_sync, preserve_manual, append_only'') \<and>
   checks_in_order sample_tz threeDefects ! 5 =
     Inl (ConfigValidationError
            ''Invalid time format for shifts.M.period.start. Must be HH:MM format.'') \<and>
   checks_in_order sample_tz threeDefects ! 14 =
     Inl (ConfigValidationError ''Invalid timezone: Invalid/Timezone'') \<and>
   validateConfig sample_tz threeDefects =
     Inl (ConfigValidationError
            ''Invalid value for 'deletion_policy'. Must be one of: full_sync, preserve_manual, append_only'')"
proof -
  let ?cs = "checks_in_order sample_tz threeDefects"
  let ?e = "ConfigValidationError
            ''Invalid value for 'deletion_policy'. Must be one of: full_sync, preserve_manual, append_only''"
  have len: "1 < length ?cs" by code_simp
  have c0: "?cs ! 0 = Inr ()" by code_simp
  have c1: "?cs ! 1 = Inl ?e" by code_simp
  have c5: "?cs ! 5 = Inl (ConfigValidationError
            ''Invalid time format for shifts.M.period.start. Must be HH:MM format.'')"
    by code_simp
  have c14: "?cs ! 14 = Inl (ConfigValidationError ''Invalid timezone: Invalid/Timezone'')"
    by code_simp
  from c0 have before: "\<forall>j<1. ?cs ! j = Inr ()" by simp
  from validateConfig_reports_first_violation [of sample_tz threeDefects] len c1 before
  have "validateConfig sample_tz threeDefects = Inl ?e" by blast
  with c1 c5 c14 show ?thesis by simp
qed

text \<open>
  C3. \<^verbatim>\<open>loadConfig\<close> fails in two kinds. A read failure gives a plain error with
  the message "Failed to load config file: " followed by the underlying message, and that
  error is not a \<^verbatim>\<open>ConfigValidationError\<close>. A parse failure gives a
  \<^verbatim>\<open>ConfigValidationError\<close> with the message "Invalid JSON in config file: " followed
  by the underlying message. A failure of the validator is a
  \<^verbatim>\<open>ConfigValidationError\<close> and reaches the caller unchanged. No other failure
  exists: an error of \<^verbatim>\<open>loadConfig\<close> is a \<^verbatim>\<open>ConfigValidationError\<close> or the
  wrapped error of a failed read.
\<close>

theorem loadConfig_failure_kinds:
  "(readFile configPath = Inl m \<longrightarrow>
      loadConfig readFile JSON_parse tz configPath
        = Inl (Error (''Failed to load config file: '' @ m))) \<and>
   (readFile configPath = Inr content \<and> JSON_parse content = Inl m \<longrightarrow>
      loadConfig readFile JSON_parse tz configPath
        = Inl (ConfigValidationError (''Invalid JSON in config file: '' @ m))) \<and>
   (readFile configPath = Inr content \<and> JSON_parse content = Inr config \<and>
    validateConfig tz config = Inl e \<longrightarrow>
      loadConfig readFile JSON_parse tz configPath = Inl e \<and> is_ConfigValidationError e) \<and>
   (loadConfig readFile JSON_parse tz configPath = Inl e' \<longrightarrow>
      is_ConfigValidationError e' \<or>
      (\<exists>m'. readFile configPath = Inl m' \<and> e' = Error (''Failed to load config file: '' @ m'))) \<and>
   \<not> is_ConfigValidationError (Error (''Failed to load config file: '' @ m))"
proof (intro conjI impI)
  show "loadConfig readFile JSON_parse tz configPath
        = Inl (Error (''Failed to load config file: '' @ m))" if "readFile configPath = Inl m"
    using that by (simp add: loadConfig_def loadConfig_try_def)
  show "loadConfig readFile JSON_parse tz configPath
        = Inl (ConfigValidationError (''Invalid JSON in config file: '' @ m))"
    if "readFile configPath = Inr content \<and> JSON_parse content = Inl m"
    using that by (simp add: loadConfig_def loadConfig_try_def)
  show "loadConfig readFile JSON_parse tz configPath = Inl e"
    and "is_ConfigValidationError e"
    if "readFile configPath = Inr content \<and> JSON_parse content = Inr config \<and>
        validateConfig tz config = Inl e"
  proof -
    from that have k: "is_ConfigValidationError e" using validateConfig_error_kind by blast
    then obtain msg where "e = ConfigValidationError msg" by (cases e) simp_all
    with that show "loadConfig readFile JSON_parse tz configPath = Inl e"
      by (simp add: loadConfig_def loadConfig_try_def)
    from k show "is_ConfigValidationError e" .
  qed
  show "is_ConfigValidationError e' \<or>
      (\<exists>m'. readFile configPath = Inl m' \<and> e' = Error (''Failed to load config file: '' @ m'))"
    if "loadConfig readFile JSON_parse tz configPath = Inl e'"
  proof (cases "readFile configPath")
    case (Inl m')
    with that show ?thesis by (auto simp: loadConfig_def loadConfig_try_def)
  next
    case (Inr content')
    show ?thesis
    proof (cases "JSON_parse content'")
      case (Inl m')
      with Inr that show ?thesis by (auto simp: loadConfig_def loadConfig_try_def)
    next
      case parsed: (Inr config')
      show ?thesis
      proof (cases "validateConfig tz config'")
        case (Inl e0)
        then have "is_ConfigValidationError e0" by (rule validateConfig_error_kind)
        then obtain msg where "e0 = ConfigValidationError msg" by (cases e0) simp_all
        with Inl Inr parsed that show ?thesis by (auto simp: loadConfig_def loadConfig_try_def)
      next
        case ok: (Inr u)
        with Inr parsed that show ?thesis by (auto simp: loadConfig_def loadConfig_try_def)
      qed
    qed
  qed
  show "\<not> is_ConfigValidationError (Error (''Failed to load config file: '' @ m))" by simp
qed

theorem loadConfig_failure_kinds_witness:
  "loadConfig sample_readFile sample_JSON_parse sample_tz ''missing.json''
     = Inl (Error ''Failed to load config file: File not found'') \<and>
   loadConfig sample_readFile sample_JSON_parse sample_tz ''broken.json''
     = Inl (ConfigValidationError
              ''Invalid JSON in config file: Unexpected token i in JSON at position 2'') \<and>
   loadConfig sample_readFile sample_JSON_parse sample_tz ''defects.json''
     = Inl (ConfigValidationError
              ''Invalid value for 'deletion_policy'. Must be one of: full_sync, preserve_manual, append_only'')"
proof -
  let ?e = "ConfigValidationError
              ''Invalid value for 'deletion_policy'. Must be one of: full_sync, preserve_manual, append_only''"
  have r1: "sample_readFile ''missing.json'' = Inl ''File not found''"
    by (simp add: sample_readFile_def)
  have r2: "sample_readFile ''broken.json'' = Inr ''{ invalid: json }''"
    by (simp add: sample_readFile_def)
  have p2: "sample_JSON_parse ''{ invalid: json }''
      = Inl ''Unexpected token i in JSON at position 2''"
    by (simp add: sample_JSON_parse_def)
  have r3: "sample_readFile ''defects.json'' = Inr ''<threeDefects>''"
    by (simp add: sample_readFile_def)
  have p3: "sample_JSON_parse ''<threeDefects>'' = Inr threeDefects"
    by (simp add: sample_JSON_parse_def)
  have v3: "validateConfig sample_tz threeDefects = Inl ?e"
    by code_simp
  have a: "loadConfig sample_readFile sample_JSON_parse sample_tz ''missing.json''
      = Inl (Error (''Failed to load config file: '' @ ''File not found''))"
    using loadConfig_failure_kinds
      [where readFile = sample_readFile and configPath = "''missing.json''"
         and m = "''File not found''" and JSON_parse = sample_JSON_parse and tz = sample_tz]
      r1 by blast
  have b: "loadConfig sample_readFile sample_JSON_parse sample_tz ''broken.json''
      = Inl (ConfigValidationError (''Invalid JSON in config file: ''
               @ ''Unexpected token i in JSON at position 2''))"
    using loadConfig_failure_kinds
      [where readFile = sample_readFile and configPath = "''broken.json''"
         and content = "''{ invalid: json }''"
         and m = "''Unexpected token i in JSON at position 2''"
         and JSON_parse = sample_JSON_parse and tz = sample_tz]
      r2 p2 by blast
  have c: "loadConfig sample_readFile sample_JSON_parse sample_tz ''defects.json'' = Inl ?e"
    using loadConfig_failure_kinds
      [where readFile = sample_readFile and configPath = "''defects.json''"
         and content = "''<threeDefects>''" and config = threeDefects and e = ?e
         and JSON_parse = sample_JSON_parse and tz = sample_tz]
      r3 p3 v3 by blast
  from a b c show ?thesis by simp
qed

text \<open>
  C9. A document that is an array is not rejected with "config must be an object": an
  array passes the guard of the field checker, and the first declared field is missing
  from it, so the error is "Missing required field 'calendars' in config".
\<close>

theorem validateConfig_array_document:
  "validateConfig tz (JArr xs)
     = Inl (ConfigValidationError ''Missing required field 'calendars' in config'')"
proof -
  have absent: "\<not> has_property (JArr xs) ''calendars''"
    using calendars_not_index [of "[0..<length xs]"] by simp
  have "validateObjectFields (JArr xs)
          [(''calendars'', ''array''), (''shifts'', ''object''), (''employees'', ''object''),
           (''deletion_policy'', ''string''), (''event_handling'', ''object''),
           (''timezone'', ''string'')]
          ''config''
        = Inl (ConfigValidationError ''Missing required field 'calendars' in config'')"
    using absent by (simp add: validateObjectFields_def del: has_property.simps)
  then show ?thesis by (simp add: validateConfig_def)
qed

lemma lookup_append_present:
  "lookup (JObj kvs) f \<noteq> JUndefined \<Longrightarrow> lookup (JObj (kvs @ kvs')) f = lookup (JObj kvs) f"
  by (cases "map_of kvs f") (simp_all add: map_add_def)

lemma conforms_cong:
  assumes "\<forall>f\<in>set [''calendars'', ''shifts'', ''employees'', ''deletion_policy'',
                    ''event_handling'', ''timezone'']. lookup config' f = lookup config f"
  shows "conforms tz config' = conforms tz config"
  using assms by (simp add: conforms_def)

lemma conforms_fields_defined:
  assumes "conforms tz config"
      and "f \<in> set [''calendars'', ''shifts'', ''employees'', ''deletion_policy'',
                    ''event_handling'', ''timezone'']"
  shows "lookup config f \<noteq> JUndefined"
  using assms by (auto simp: conforms_def)

lemma validateConfig_timezone_last:
  "validateConfig tz config =
     (case validateConfig (\<lambda>s. True) config of
        Inl e \<Rightarrow> Inl e
      | Inr u \<Rightarrow> timezone_check tz (lookup config ''timezone''))"
proof -
  obtain pre where pre: "\<And>tz'. checks_in_order tz' config
      = pre @ [timezone_check tz' (lookup config ''timezone'')]"
    unfolding checks_in_order_def by (metis append.assoc)
  have "timezone_check (\<lambda>s. True) (lookup config ''timezone'') = Inr ()"
    by (simp add: timezone_check_def)
  then have "validateConfig (\<lambda>s. True) config = first_error pre"
    by (simp add: validateConfig_first_error pre first_error_append split: sum.split)
  then show ?thesis
    by (simp add: validateConfig_first_error pre first_error_append first_error_Cons
          split: sum.split)
qed

text \<open>
  C1. For every document that satisfies all validation rules (\<open>conforms\<close>),
  \<^verbatim>\<open>loadConfig\<close> returns the parsed value itself. A field that the rules do not
  name does not make a document invalid, so it is part of what is returned.
\<close>

theorem loadConfig_returns_parsed_document:
  "(readFile configPath = Inr content \<and> JSON_parse content = Inr config \<and> conforms tz config
      \<longrightarrow> loadConfig readFile JSON_parse tz configPath = Inr config) \<and>
   (conforms tz (JObj kvs) \<and> extra \<notin> set (map fst kvs)
      \<longrightarrow> conforms tz (JObj (kvs @ [(extra, v)])))"
proof (intro conjI impI)
  assume "readFile configPath = Inr content \<and> JSON_parse content = Inr config \<and> conforms tz config"
  then show "loadConfig readFile JSON_parse tz configPath = Inr config"
    by (simp add: loadConfig_def loadConfig_try_def validateConfig_ok_iff [symmetric])
next
  assume a: "conforms tz (JObj kvs) \<and> extra \<notin> set (map fst kvs)"
  have "\<forall>f\<in>set [''calendars'', ''shifts'', ''employees'', ''deletion_policy'',
                  ''event_handling'', ''timezone''].
          lookup (JObj (kvs @ [(extra, v)])) f = lookup (JObj kvs) f"
    using a conforms_fields_defined [of tz "JObj kvs"] lookup_append_present by blast
  then have "conforms tz (JObj (kvs @ [(extra, v)])) = conforms tz (JObj kvs)"
    by (rule conforms_cong)
  with a show "conforms tz (JObj (kvs @ [(extra, v)]))" by simp
qed

text \<open>
  The valid document of the test suite with a further field \<^verbatim>\<open>notes\<close> is loaded,
  and the value returned has that field.
\<close>

theorem loadConfig_returns_parsed_document_witness:
  "conforms sample_tz validConfig \<and>
   conforms sample_tz validConfigWithNotes \<and>
   loadConfig sample_readFile sample_JSON_parse sample_tz ''notes.json''
     = Inr (JObj (validFields @ [(''notes'', JStr ''kept'')]))"
proof -
  have conf: "conforms sample_tz (JObj validFields)" by code_simp
  have new: "''notes'' \<notin> set (map fst validFields)" by code_simp
  from loadConfig_returns_parsed_document [where tz = sample_tz and kvs = validFields
      and extra = "''notes''" and v = "JStr ''kept''"] conf new
  have ext: "conforms sample_tz (JObj (validFields @ [(''notes'', JStr ''kept'')]))"
    by blast
  have r: "sample_readFile ''notes.json'' = Inr ''<validConfigWithNotes>''"
    by (simp add: sample_readFile_def)
  have p: "sample_JSON_parse ''<validConfigWithNotes>''
      = Inr (JObj (validFields @ [(''notes'', JStr ''kept'')]))"
    by (simp add: sample_JSON_parse_def validConfigWithNotes_def)
  from loadConfig_returns_parsed_document [where readFile = sample_readFile
      and configPath = "''notes.json''" and content = "''<validConfigWithNotes>''"
      and JSON_parse = sample_JSON_parse and tz = sample_tz
      and config = "JObj (validFields @ [(''notes'', JStr ''kept'')])"] r p ext
  have "loadConfig sample_readFile sample_JSON_parse sample_tz ''notes.json''
     = Inr (JObj (validFields @ [(''notes'', JStr ''kept'')]))"
    by blast
  with conf ext show ?thesis by (simp add: validConfig_def validConfigWithNotes_def)
qed

text \<open>
  C7. The timezone check runs last: the validator first does everything it would do on a
  host that resolves every name, and only when all of that passes, a name the host does
  not resolve gives the \<^verbatim>\<open>ConfigValidationError\<close> "Invalid timezone: " followed by
  the value. At that point the value is a string.
\<close>

theorem timezone_checked_last:
  "validateConfig tz config =
     (case validateConfig (\<lambda>s. True) config of
        Inl e \<Rightarrow> Inl e
      | Inr u \<Rightarrow>
          if tz (the_string (lookup config ''timezone'')) then Inr ()
          else Inl (ConfigValidationError
                      (''Invalid timezone: '' @ the_string (lookup config ''timezone'')))) \<and>
   (validateConfig (\<lambda>s. True) config = Inr () \<longrightarrow>
      (\<exists>s. lookup config ''timezone'' = JStr s))"
proof (intro conjI impI)
  show "validateConfig tz config =
     (case validateConfig (\<lambda>s. True) config of
        Inl e \<Rightarrow> Inl e
      | Inr u \<Rightarrow>
          if tz (the_string (lookup config ''timezone'')) then Inr ()
          else Inl (ConfigValidationError
                      (''Invalid timezone: '' @ the_string (lookup config ''timezone''))))"
    using validateConfig_timezone_last [of tz config]
    by (simp add: timezone_check_def split: sum.split)
next
  assume "validateConfig (\<lambda>s. True) config = Inr ()"
  then have "is_string (lookup config ''timezone'')"
    by (simp add: validateConfig_ok_iff conforms_def)
  then show "\<exists>s. lookup config ''timezone'' = JStr s"
    by (cases "lookup config ''timezone''") simp_all
qed

text \<open>
  The test document with the timezone \<^verbatim>\<open>Invalid/Timezone\<close> is valid but for the
  timezone, and fails with exactly "Invalid timezone: Invalid/Timezone".
\<close>

theorem timezone_checked_last_witness:
  "validateConfig (\<lambda>s. True) badTimezone = Inr () \<and>
   lookup badTimezone ''timezone'' = JStr ''Invalid/Timezone'' \<and>
   \<not> sample_tz ''Invalid/Timezone'' \<and>
   validateConfig sample_tz badTimezone
     = Inl (ConfigValidationError ''Invalid timezone: Invalid/Timezone'')"
proof -
  have ok: "validateConfig (\<lambda>s. True) badTimezone = Inr ()" by code_simp
  have tzv: "lookup badTimezone ''timezone'' = JStr ''Invalid/Timezone''" by code_simp
  have no: "\<not> sample_tz ''Invalid/Timezone''" by code_simp
  from timezone_checked_last [of sample_tz badTimezone] ok tzv no
  have "validateConfig sample_tz badTimezone
     = Inl (ConfigValidationError ''Invalid timezone: Invalid/Timezone'')"
    by simp
  with ok tzv no show ?thesis by simp
qed

lemma first_error_skip: "first_error rs = Inr () \<Longrightarrow> first_error (rs @ rs') = first_error rs'"
  by (simp add: first_error_append)

lemma check_fields_first_some:
  "check_fields obj fields objName =
     (case first_some (map (field_error obj objName) fields) of
        None \<Rightarrow> Inr ()
      | Some m \<Rightarrow> Inl (ConfigValidationError m))"
proof (induction fields)
  case Nil
  show ?case by simp
next
  case (Cons fk fields)
  obtain f k where fk: "fk = (f, k)" by (cases fk)
  show ?case
    unfolding fk using Cons.IH
    by (auto simp: field_error_def typeof_string_iff object_test_iff [symmetric] Let_def)
qed

text \<open>
  C6. The enum checker succeeds exactly when the value is a string that is a member of
  the allowed list, by equality of strings; otherwise it fails with "Invalid value for
  '<fieldName>'. Must be one of: " followed by the allowed values joined by ", ". In a
  document of the right shape the validator applies it to \<^verbatim>\<open>deletion_policy\<close> under
  that name and then to the six fields of \<^verbatim>\<open>event_handling\<close> under the names
  \<^verbatim>\<open>event_handling.<field>\<close>, each with its own allowed list.
\<close>

theorem validateEnum_membership:
  "validateEnum v allowed fieldName =
     (if enum_member v allowed then Inr ()
      else Inl (ConfigValidationError
                  (''Invalid value for '' @ [CHR 0x27] @ fieldName @ [CHR 0x27]
                     @ ''. Must be one of: '' @ join '', '' allowed))) \<and>
   (enum_member v allowed \<longleftrightarrow> (\<exists>s. v = JStr s \<and> s \<in> set allowed)) \<and>
   (shape_ok config \<longrightarrow>
      validateConfig tz config =
        first_error
          (validateEnum (lookup config ''deletion_policy'')
             [''full_sync'', ''preserve_manual'', ''append_only''] ''deletion_policy''
           # map (\<lambda>(field, allowed).
                    validateEnum (lookup (lookup config ''event_handling'') field) allowed
                      (''event_handling.'' @ field))
               event_handling_enums
           @ [timezone_check tz (lookup config ''timezone'')]))"
proof (intro conjI impI)
  show "validateEnum v allowed fieldName =
     (if enum_member v allowed then Inr ()
      else Inl (ConfigValidationError
                  (''Invalid value for '' @ [CHR 0x27] @ fieldName @ [CHR 0x27]
                     @ ''. Must be one of: '' @ join '', '' allowed)))"
    by (cases v) (simp_all add: validateEnum_def enum_member_def)
  show "enum_member v allowed \<longleftrightarrow> (\<exists>s. v = JStr s \<and> s \<in> set allowed)"
    by (cases v) (simp_all add: enum_member_def)
next
  assume shape: "shape_ok config"
  let ?eh = "lookup config ''event_handling''"
  let ?dp = "validateEnum (lookup config ''deletion_policy'')
        [''full_sync'', ''preserve_manual'', ''append_only''] ''deletion_policy''"
  let ?tail = "map (enum_check ?eh) event_handling_enums
       @ [timezone_check tz (lookup config ''timezone'')]"
  have top: "validateObjectFields config
        [(''calendars'', ''array''), (''shifts'', ''object''), (''employees'', ''object''),
         (''deletion_policy'', ''string''), (''event_handling'', ''object''),
         (''timezone'', ''string'')] ''config'' = Inr ()"
    using shape by (simp add: top_level_ok_iff shape_ok_def)
  have cals: "first_error (map calendar_check (array_entries (lookup config ''calendars''))) = Inr ()"
    using shape by (simp add: calendars_ok_iff shape_ok_def)
  have shifts: "first_error (concat (map shift_checks (Object_entries (lookup config ''shifts''))))
      = Inr ()"
    using shape by (simp add: shifts_ok_iff shape_ok_def)
  have ehf: "validateObjectFields ?eh
        (map (\<lambda>(field, allowed). (field, ''string'')) event_handling_enums) ''event_handling''
      = Inr ()"
    using shape by (simp add: event_handling_fields_ok_iff shape_ok_def)
  define cs where "cs = map calendar_check (array_entries (lookup config ''calendars''))"
  define ss where "ss = concat (map shift_checks (Object_entries (lookup config ''shifts'')))"
  define tl where "tl = ?tail"
  have "first_error (cs @ ss @ [Inr ()] @ tl) = first_error (ss @ [Inr ()] @ tl)"
    using cals unfolding cs_def by (rule first_error_skip)
  also have "\<dots> = first_error ([Inr ()] @ tl)"
    using shifts unfolding ss_def by (rule first_error_skip)
  also have "\<dots> = first_error tl" by simp
  finally have skip: "first_error (cs @ ss @ [Inr ()] @ tl) = first_error tl" .
  have "checks_in_order tz config = Inr () # ?dp # (cs @ ss @ [Inr ()] @ tl)"
    unfolding checks_in_order_def cs_def ss_def tl_def top ehf by simp
  then have "validateConfig tz config = first_error (?dp # tl)"
    unfolding validateConfig_first_error
    by (simp only: first_error.simps first_error_Cons [of ?dp] skip)
  then have "validateConfig tz config = first_error (?dp # ?tail)"
    unfolding tl_def .
  moreover have "enum_check ?eh = (\<lambda>(field, allowed).
      validateEnum (lookup ?eh field) allowed (''event_handling.'' @ field))"
    by (simp add: enum_check_def)
  ultimately show "validateConfig tz config =
        first_error
          (?dp # map (\<lambda>(field, allowed).
                    validateEnum (lookup ?eh field) allowed (''event_handling.'' @ field))
               event_handling_enums
           @ [timezone_check tz (lookup config ''timezone'')])"
    by simp
qed

text \<open>
  "update" is accepted for \<^verbatim>\<open>duplicate_shifts\<close>; with "Update" the document fails
  with the message for that field.
\<close>

theorem validateEnum_membership_witness:
  "shape_ok caseVariant \<and>
   validateEnum (JStr ''update'') [''update'', ''skip'', ''create_new'']
     ''event_handling.duplicate_shifts'' = Inr () \<and>
   validateConfig sample_tz caseVariant =
     Inl (ConfigValidationError
            ''Invalid value for 'event_handling.duplicate_shifts'. Must be one of: update, skip, create_new'')"
proof -
  have shape: "shape_ok caseVariant" by code_simp
  have m: "enum_member (JStr ''update'') [''update'', ''skip'', ''create_new'']" by code_simp
  from validateEnum_membership [where v = "JStr ''update''"
      and allowed = "[''update'', ''skip'', ''create_new'']"
      and fieldName = "''event_handling.duplicate_shifts''"] m
  have ok: "validateEnum (JStr ''update'') [''update'', ''skip'', ''create_new'']
     ''event_handling.duplicate_shifts'' = Inr ()"
    by simp
  from validateEnum_membership [where config = caseVariant and tz = sample_tz] shape
  have "validateConfig sample_tz caseVariant =
        first_error
          (validateEnum (lookup caseVariant ''deletion_policy'')
             [''full_sync'', ''preserve_manual'', ''append_only''] ''deletion_policy''
           # map (\<lambda>(field, allowed).
                    validateEnum (lookup (lookup caseVariant ''event_handling'') field) allowed
                      (''event_handling.'' @ field))
               event_handling_enums
           @ [timezone_check sample_tz (lookup caseVariant ''timezone'')])"
    by blast
  also have "\<dots> = Inl (ConfigValidationError
            ''Invalid value for 'event_handling.duplicate_shifts'. Must be one of: update, skip, create_new'')"
    by code_simp
  finally show ?thesis using shape ok by simp
qed

text \<open>
  C4, as amended. The field specification is any list of distinct names among those the
  module declares, each with a kind. On a value that passes the guard, the field checker
  goes through the declared fields in their order and fails on the first offending one:
  with "Missing required field '<field>' in <contextLabel>" when the field is absent,
  and, when it is present with the wrong kind, with "Field '<field>' in <contextLabel>
  must be a string", "... must be an array" or "... must be an object". A value that does
  not pass the guard fails with "<contextLabel> must be an object".
\<close>

theorem validateObjectFields_first_offending_field:
  "set (map fst fields) \<subseteq> set declared_field_names \<and> distinct (map fst fields) \<longrightarrow>
   (isArray obj \<or> is_object obj \<longrightarrow>
      validateObjectFields obj fields contextLabel =
        (case first_some (map (field_error obj contextLabel) fields) of
           None \<Rightarrow> Inr ()
         | Some m \<Rightarrow> Inl (ConfigValidationError m))) \<and>
   (\<not> (isArray obj \<or> is_object obj) \<longrightarrow>
      validateObjectFields obj fields contextLabel =
        Inl (ConfigValidationError (contextLabel @ '' must be an object'')))"
  using guard_iff [of obj] check_fields_first_some [of obj fields contextLabel]
  by (auto simp: validateObjectFields_def)

text \<open>
  In \<open>twoOffending\<close> five declared fields offend; the error is the one of the first,
  \<^verbatim>\<open>shifts\<close>.
\<close>

theorem validateObjectFields_first_offending_field_witness:
  "set (map fst
          [(''calendars'', ''array''), (''shifts'', ''object''), (''employees'', ''object''),
           (''deletion_policy'', ''string''), (''event_handling'', ''object''),
           (''timezone'', ''string'')]) \<subseteq> set declared_field_names \<and>
   is_object twoOffending \<and>
   map (field_error twoOffending ''config'')
     [(''calendars'', ''array''), (''shifts'', ''object''), (''employees'', ''object''),
      (''deletion_policy'', ''string''), (''event_handling'', ''object''),
      (''timezone'', ''string'')]
     = [None,
        Some ''Field 'shifts' in config must be an object'',
        Some ''Missing required field 'employees' in config'',
        Some ''Missing required field 'deletion_policy' in config'',
        Some ''Missing required field 'event_handling' in config'',
        Some ''Field 'timezone' in config must be a string''] \<and>
   validateObjectFields twoOffending
     [(''calendars'', ''array''), (''shifts'', ''object''), (''employees'', ''object''),
      (''deletion_policy'', ''string''), (''event_handling'', ''object''),
      (''timezone'', ''string'')] ''config''
     = Inl (ConfigValidationError ''Field 'shifts' in config must be an object'')"
proof -
  let ?fields = "[(''calendars'', ''array''), (''shifts'', ''object''), (''employees'', ''object''),
      (''deletion_policy'', ''string''), (''event_handling'', ''object''),
      (''timezone'', ''string'')]"
  have names: "set (map fst ?fields) \<subseteq> set declared_field_names"
    by (simp add: declared_field_names_def)
  have once: "distinct (map fst ?fields)" by simp
  have obj: "is_object twoOffending" by code_simp
  have errs: "map (field_error twoOffending ''config'') ?fields
     = [None,
        Some ''Field 'shifts' in config must be an object'',
        Some ''Missing required field 'employees' in config'',
        Some ''Missing required field 'deletion_policy' in config'',
        Some ''Missing required field 'event_handling' in config'',
        Some ''Field 'timezone' in config must be a string'']"
    by code_simp
  from validateObjectFields_first_offending_field
         [where obj = twoOffending and fields = ?fields and contextLabel = "''config''"]
       names once obj
  have "validateObjectFields twoOffending ?fields ''config'' =
        (case first_some (map (field_error twoOffending ''config'') ?fields) of
           None \<Rightarrow> Inr ()
         | Some m \<Rightarrow> Inl (ConfigValidationError m))"
    by blast
  then have "validateObjectFields twoOffending ?fields ''config''
     = Inl (ConfigValidationError ''Field 'shifts' in config must be an object'')"
    unfolding errs by simp
  with names obj errs show ?thesis by blast
qed

text \<open>
  C4 as stated gives one template for the three kinds, "must be a <kind>". For a document
  whose \<^verbatim>\<open>calendars\<close> is a string, the field is present with the wrong kind, and
  the message of the code has "an array", not "a array".
\<close>

theorem validateObjectFields_kind_message_counterexample:
  "has_property (JObj [(''calendars'', JStr ''x'')]) ''calendars'' \<and>
   \<not> isArray (lookup (JObj [(''calendars'', JStr ''x'')]) ''calendars'') \<and>
   validateObjectFields (JObj [(''calendars'', JStr ''x'')])
     [(''calendars'', ''array''), (''shifts'', ''object''), (''employees'', ''object''),
      (''deletion_policy'', ''string''), (''event_handling'', ''object''),
      (''timezone'', ''string'')] ''config''
     = Inl (ConfigValidationError ''Field 'calendars' in config must be an array'') \<and>
   validateConfig sample_tz (JObj [(''calendars'', JStr ''x'')])
     = Inl (ConfigValidationError ''Field 'calendars' in config must be an array'') \<and>
   claimed_kind_message ''calendars'' ''config'' ''array''
     = ''Field 'calendars' in config must be a array'' \<and>
   validateConfig sample_tz (JObj [(''calendars'', JStr ''x'')])
     \<noteq> Inl (ConfigValidationError (claimed_kind_message ''calendars'' ''config'' ''array''))"
proof -
  let ?doc = "JObj [(''calendars'', JStr ''x'')]"
  have present: "has_property ?doc ''calendars''" by simp
  have kind: "\<not> isArray (lookup ?doc ''calendars'')" by simp
  have fields: "validateObjectFields ?doc
     [(''calendars'', ''array''), (''shifts'', ''object''), (''employees'', ''object''),
      (''deletion_policy'', ''string''), (''event_handling'', ''object''),
      (''timezone'', ''string'')] ''config''
     = Inl (ConfigValidationError ''Field 'calendars' in config must be an array'')"
    by (simp add: validateObjectFields_def)
  then have config: "validateConfig sample_tz ?doc
     = Inl (ConfigValidationError ''Field 'calendars' in config must be an array'')"
    by (simp add: validateConfig_def)
  have claimed: "claimed_kind_message ''calendars'' ''config'' ''array''
     = ''Field 'calendars' in config must be a array''"
    by (simp add: claimed_kind_message_def)
  have differ: "''Field 'calendars' in config must be an array''
     \<noteq> ''Field 'calendars' in config must be a array''"
    by simp
  from present kind fields config claimed differ show ?thesis by (simp only: ) simp
qed

lemma in_re_match_Class:
  "r \<in> set (re_match (Class cs) s) \<longleftrightarrow> (\<exists>c. s = c # r \<and> c \<in> set cs)"
  by (cases s) auto

lemma in_re_match_Seq:
  "r \<in> set (re_match (Seq a b) s) \<longleftrightarrow> (\<exists>t. t \<in> set (re_match a s) \<and> r \<in> set (re_match b t))"
  by auto

lemma in_re_match_Alt:
  "r \<in> set (re_match (Alt a b) s) \<longleftrightarrow> r \<in> set (re_match a s) \<or> r \<in> set (re_match b s)"
  by simp

lemma re_match_two_pairs:
  "r \<in> set (re_match (Alt (Seq (Class A) (Class B)) (Seq (Class C) (Class D))) s) \<longleftrightarrow>
     (\<exists>a b. s = a # b # r \<and> (a \<in> set A \<and> b \<in> set B \<or> a \<in> set C \<and> b \<in> set D))"
  unfolding in_re_match_Alt in_re_match_Seq in_re_match_Class by blast

lemma re_match_three:
  "r \<in> set (re_match (Seq (Class A) (Seq (Class B) (Class C))) t) \<longleftrightarrow>
     (\<exists>c d e. t = c # d # e # r \<and> c \<in> set A \<and> d \<in> set B \<and> e \<in> set C)"
  unfolding in_re_match_Seq in_re_match_Class by blast

lemma timeRegex_chars:
  "timeRegex_test s \<longleftrightarrow>
     (\<exists>a b d e. s = [a, b, CHR '':'', d, e] \<and>
        (a \<in> set ''01'' \<and> b \<in> set ''0123456789'' \<or> a \<in> set ''2'' \<and> b \<in> set ''0123'') \<and>
        d \<in> set ''012345'' \<and> e \<in> set ''0123456789'')"
proof -
  have "timeRegex_test s \<longleftrightarrow>
     (\<exists>t. (\<exists>a b. s = a # b # t \<and>
              (a \<in> set ''01'' \<and> b \<in> set ''0123456789'' \<or> a \<in> set ''2'' \<and> b \<in> set ''0123'')) \<and>
          (\<exists>c d e. t = c # d # e # [] \<and> c \<in> set '':'' \<and> d \<in> set ''012345'' \<and>
              e \<in> set ''0123456789''))"
    unfolding timeRegex_test_def re_test_def timeRegex_def
    by (subst in_re_match_Seq) (simp only: re_match_two_pairs re_match_three)
  also have "\<dots> \<longleftrightarrow>
     (\<exists>a b d e. s = [a, b, CHR '':'', d, e] \<and>
        (a \<in> set ''01'' \<and> b \<in> set ''0123456789'' \<or> a \<in> set ''2'' \<and> b \<in> set ''0123'') \<and>
        d \<in> set ''012345'' \<and> e \<in> set ''0123456789'')"
  proof -
    have c: "c \<in> set '':'' \<longleftrightarrow> c = CHR '':''" for c by simp
    show ?thesis unfolding c by blast
  qed
  finally show ?thesis .
qed

lemma digit_char_upto:
  "n \<le> 10 \<Longrightarrow> c \<in> set (take n ''0123456789'') \<longleftrightarrow> (\<exists>d<n. c = digit_char d)"
  by (auto simp: digit_char_def in_set_conv_nth)

lemma digits_10: "c \<in> set ''0123456789'' \<longleftrightarrow> (\<exists>d<10. c = digit_char d)"
  using digit_char_upto [of 10 c] by simp

lemma digits_6: "c \<in> set ''012345'' \<longleftrightarrow> (\<exists>d<6. c = digit_char d)"
  using digit_char_upto [of 6 c] by (simp add: numeral_eq_Suc)

lemma digits_4: "c \<in> set ''0123'' \<longleftrightarrow> (\<exists>d<4. c = digit_char d)"
  using digit_char_upto [of 4 c] by (simp add: numeral_eq_Suc)

lemma digits_2: "c \<in> set ''01'' \<longleftrightarrow> (\<exists>d<2. c = digit_char d)"
  using digit_char_upto [of 2 c] by (simp add: numeral_eq_Suc)

lemma digits_two: "c \<in> set ''2'' \<longleftrightarrow> c = digit_char 2"
  by (simp add: digit_char_def)

lemma hours_digits:
  "(a \<in> set ''01'' \<and> b \<in> set ''0123456789'' \<or> a \<in> set ''2'' \<and> b \<in> set ''0123'') \<longleftrightarrow>
     (\<exists>h<24. [a, b] = two_digits h)"
proof
  assume "a \<in> set ''01'' \<and> b \<in> set ''0123456789'' \<or> a \<in> set ''2'' \<and> b \<in> set ''0123''"
  then consider
      (low) x y where "x < 2" "y < 10" "a = digit_char x" "b = digit_char y"
    | (high) y where "y < 4" "a = digit_char 2" "b = digit_char y"
    unfolding digits_2 digits_10 digits_4 digits_two by blast
  then show "\<exists>h<24. [a, b] = two_digits h"
  proof cases
    case low
    then have "10 * x + y < 24" "(10 * x + y) div 10 = x" "(10 * x + y) mod 10 = y" by simp_all
    with low show ?thesis unfolding two_digits_def by metis
  next
    case high
    then have "20 + y < 24" "(20 + y) div 10 = 2" "(20 + y) mod 10 = y" by presburger+
    with high show ?thesis unfolding two_digits_def by metis
  qed
next
  assume "\<exists>h<24. [a, b] = two_digits h"
  then obtain h where h: "h < 24" "a = digit_char (h div 10)" "b = digit_char (h mod 10)"
    by (auto simp: two_digits_def)
  show "a \<in> set ''01'' \<and> b \<in> set ''0123456789'' \<or> a \<in> set ''2'' \<and> b \<in> set ''0123''"
  proof (cases "h div 10 < 2")
    case True
    moreover have "h mod 10 < 10" by simp
    ultimately show ?thesis unfolding digits_2 digits_10 using h by blast
  next
    case False
    with h(1) have "h div 10 = 2" "h mod 10 < 4" by presburger+
    then show ?thesis unfolding digits_two digits_4 using h by auto
  qed
qed

lemma minutes_digits:
  "d \<in> set ''012345'' \<and> e \<in> set ''0123456789'' \<longleftrightarrow> (\<exists>m<60. [d, e] = two_digits m)"
proof
  assume "d \<in> set ''012345'' \<and> e \<in> set ''0123456789''"
  then obtain x y where xy: "x < 6" "y < 10" "d = digit_char x" "e = digit_char y"
    unfolding digits_6 digits_10 by blast
  then have "10 * x + y < 60" "(10 * x + y) div 10 = x" "(10 * x + y) mod 10 = y" by simp_all
  with xy show "\<exists>m<60. [d, e] = two_digits m" unfolding two_digits_def by metis
next
  assume "\<exists>m<60. [d, e] = two_digits m"
  then obtain m where m: "m < 60" "d = digit_char (m div 10)" "e = digit_char (m mod 10)"
    by (auto simp: two_digits_def)
  then have "m div 10 < 6" "m mod 10 < 10" by presburger+
  with m show "d \<in> set ''012345'' \<and> e \<in> set ''0123456789''"
    unfolding digits_6 digits_10 by blast
qed

lemma timeRegex_hhmm:
  "timeRegex_test s \<longleftrightarrow> (\<exists>h m. h < 24 \<and> m < 60 \<and> s = two_digits h @ '':'' @ two_digits m)"
proof -
  have "timeRegex_test s \<longleftrightarrow>
     (\<exists>a b d e. s = [a, b, CHR '':'', d, e] \<and> (\<exists>h<24. [a, b] = two_digits h) \<and>
        (\<exists>m<60. [d, e] = two_digits m))"
    unfolding timeRegex_chars hours_digits [symmetric] minutes_digits [symmetric] by blast
  also have "\<dots> \<longleftrightarrow> (\<exists>h m. h < 24 \<and> m < 60 \<and> s = two_digits h @ '':'' @ two_digits m)"
    by (auto simp: two_digits_def)
  finally show ?thesis .
qed

lemma is_string_the_string: "is_string v \<Longrightarrow> v = JStr (the_string v)"
  by (cases v) simp_all

lemma lookup_set_property:
  "lookup (set_property (JObj kvs) f v) g = (if g = f then v else lookup (JObj kvs) g)"
  by (simp add: update_conv')

lemma lookup_array_name:
  assumes "f \<noteq> ''length''" and "\<not> set f \<subseteq> set ''0123456789''"
  shows "lookup (JArr xs) f = JUndefined"
proof -
  have "f \<notin> set (map string_of_nat [0..<length xs])"
    using assms(2) string_of_nat_digits by auto
  with assms(1) have "\<not> has_property (JArr xs) f" by simp
  then show ?thesis by (rule absent_lookup)
qed

lemma array_field_of_object:
  assumes "isArray (lookup config ''calendars'')"
  shows "\<exists>kvs. config = JObj kvs"
proof (cases config)
  case (JArr xs)
  have "lookup (JArr xs) ''calendars'' = JUndefined" by (rule lookup_array_name) simp_all
  with assms JArr show ?thesis by simp
qed (use assms in simp_all)

lemma calendar_ok_object:
  assumes "calendar_ok calendar"
  shows "\<exists>kvs. calendar = JObj kvs"
proof (cases calendar)
  case (JArr xs)
  have "lookup (JArr xs) ''calendar_id'' = JUndefined" by (rule lookup_array_name) simp_all
  with assms JArr show ?thesis by (simp add: calendar_ok_def)
qed (use assms in \<open>simp_all add: calendar_ok_def\<close>)

lemma calendar_ok_set_employees:
  assumes "calendar_ok calendar"
  shows "calendar_ok (set_property calendar ''employees'' (JArr es))"
proof -
  from assms obtain kvs where "calendar = JObj kvs" using calendar_ok_object by blast
  with assms show ?thesis
    unfolding calendar_ok_def by (simp only: lookup_set_property) simp
qed

lemma array_entries_values: "map snd (array_entries (JArr xs)) = xs"
  by (simp add: map_snd_zip)

text \<open>
  C8. Validation does not look into the values of the top-level \<^verbatim>\<open>employees\<close> mapping
  nor into the elements of any \<^verbatim>\<open>calendars[i].employees\<close> array: when a document is
  accepted, so is the document obtained from it by putting any object in place of the
  mapping and any array in place of the \<^verbatim>\<open>employees\<close> of each calendar.
\<close>

theorem employees_not_inspected:
  "validateConfig tz config = Inr () \<and> lookup config ''calendars'' = JArr calendars \<and>
   length staff = length calendars \<longrightarrow>
     validateConfig tz
       (set_property
          (set_property config ''calendars''
             (JArr (map2 (\<lambda>calendar es. set_property calendar ''employees'' (JArr es))
                      calendars staff)))
          ''employees'' (JObj emps)) = Inr ()"
proof
  assume a: "validateConfig tz config = Inr () \<and> lookup config ''calendars'' = JArr calendars \<and>
   length staff = length calendars"
  let ?cals = "map2 (\<lambda>calendar es. set_property calendar ''employees'' (JArr es)) calendars staff"
  from a have conf: "conforms tz config" by (simp add: validateConfig_ok_iff)
  then obtain kvs where kvs: "config = JObj kvs"
    using array_field_of_object by (auto simp: conforms_def)
  define kvs' where "kvs' = AList.update ''calendars'' (JArr ?cals) kvs"
  let ?doc = "set_property (JObj kvs') ''employees'' (JObj emps)"
  have doc: "set_property (set_property config ''calendars'' (JArr ?cals)) ''employees'' (JObj emps)
      = ?doc"
    by (simp add: kvs kvs'_def)
  have inner: "lookup (JObj kvs') g = (if g = ''calendars'' then JArr ?cals else lookup config g)" for g
    unfolding kvs'_def kvs using lookup_set_property [of kvs "''calendars''" "JArr ?cals" g] by simp
  have look: "lookup ?doc g =
      (if g = ''employees'' then JObj emps
       else if g = ''calendars'' then JArr ?cals else lookup config g)" for g
    by (simp only: lookup_set_property inner)
  from conf a have "list_all calendar_ok calendars"
    by (simp add: conforms_def array_entries_values)
  then have "list_all calendar_ok ?cals"
    using calendar_ok_set_employees by (auto simp: list_all_iff dest: set_zip_leftD)
  then have cals: "list_all calendar_ok (map snd (array_entries (JArr ?cals)))"
    by (simp only: array_entries_values)
  have "conforms tz ?doc"
    using conf cals unfolding conforms_def by (simp only: look) simp
  then show "validateConfig tz
       (set_property (set_property config ''calendars'' (JArr ?cals)) ''employees'' (JObj emps))
     = Inr ()"
    by (simp only: doc validateConfig_ok_iff)
qed

text \<open>
  The valid document of the test suite stays valid with \<open>42\<close> and null as employee
  configurations and with \<open>[1, null, {}]\<close> as the employees of its calendar.
\<close>

theorem employees_not_inspected_witness:
  "validateConfig sample_tz validConfig = Inr () \<and>
   validateConfig sample_tz oddEmployees = Inr ()"
proof -
  let ?calendars = "[JObj [(''calendar_id'', JStr ''jane.doe@example.com''),
                           (''employees'', JArr [JStr ''Jane Doe''])]]"
  let ?staff = "[[JNum 1, JNull, JObj []]]"
  let ?emps = "[(''Jane Doe'', JNum 42), (''nobody'', JNull)]"
  have ok: "validateConfig sample_tz validConfig = Inr ()" by code_simp
  have cals: "lookup validConfig ''calendars'' = JArr ?calendars" by code_simp
  have len: "length ?staff = length ?calendars" by simp
  have doc: "set_property
          (set_property validConfig ''calendars''
             (JArr (map2 (\<lambda>calendar es. set_property calendar ''employees'' (JArr es))
                      ?calendars ?staff)))
          ''employees'' (JObj ?emps) = oddEmployees"
    by code_simp
  from employees_not_inspected [where config = validConfig and tz = sample_tz
      and calendars = ?calendars and staff = ?staff and emps = ?emps] ok cals len
  have "validateConfig sample_tz (set_property
          (set_property validConfig ''calendars''
             (JArr (map2 (\<lambda>calendar es. set_property calendar ''employees'' (JArr es))
                      ?calendars ?staff)))
          ''employees'' (JObj ?emps)) = Inr ()"
    by blast
  with ok show ?thesis by (simp only: doc)
qed

lemma shift_ok_object:
  assumes "shift_ok shift"
  shows "\<exists>kvs. shift = JObj kvs"
proof (cases shift)
  case (JArr xs)
  have "lookup (JArr xs) ''label'' = JUndefined" by (rule lookup_array_name) simp_all
  with assms JArr show ?thesis by (simp add: shift_ok_def)
qed (use assms in \<open>simp_all add: shift_ok_def\<close>)

lemma validate_shifts_ok_iff:
  "validate_shifts es = Inr () \<longleftrightarrow> list_all shift_ok (map snd es)"
  by (simp only: validate_shifts_first_error shifts_ok_iff)

lemma validate_shift_ok_iff: "validate_shift key shift = Inr () \<longleftrightarrow> shift_ok shift"
  using validate_shifts_ok_iff [of "[(key, shift)]"] by (simp split: sum.splits)

lemma validate_shifts_append:
  "validate_shifts (es @ es') =
     (case validate_shifts es of Inl e \<Rightarrow> Inl e | Inr u \<Rightarrow> validate_shifts es')"
  by (simp add: validate_shifts_first_error first_error_append split: sum.split)

lemma validate_shift_new_period:
  assumes "shift_ok shift"
  shows "validate_shift key
           (set_property shift ''period'' (JObj [(''start'', JStr t1), (''end'', JStr t2)])) =
         (if \<not> timeRegex_test t1 then
            Inl (ConfigValidationError
                   (''Invalid time format for shifts.'' @ key @ ''.period.start. Must be HH:MM format.''))
          else if \<not> timeRegex_test t2 then
            Inl (ConfigValidationError
                   (''Invalid time format for shifts.'' @ key @ ''.period.end. Must be HH:MM format.''))
          else Inr ())"
proof -
  from assms obtain kvs where kvs: "shift = JObj kvs" using shift_ok_object by blast
  let ?period = "JObj [(''start'', JStr t1), (''end'', JStr t2)]"
  let ?shift = "set_property shift ''period'' ?period"
  have look: "lookup ?shift g = (if g = ''period'' then ?period else lookup shift g)" for g
    unfolding kvs by (rule lookup_set_property)
  have per: "lookup ?shift ''period'' = ?period" by (simp add: look)
  have "is_string (lookup ?shift ''label'')" "is_string (lookup ?shift ''color'')"
    using assms by (simp_all add: look shift_ok_def)
  then have fields: "validateObjectFields ?shift
      [(''label'', ''string''), (''color'', ''string''), (''period'', ''object'')]
      (''shifts.'' @ key) = Inr ()"
    by (simp only: shift_fields_ok_iff per) simp
  have pfields: "validateObjectFields ?period
      [(''start'', ''string''), (''end'', ''string'')] (''shifts.'' @ key @ ''.period'') = Inr ()"
    by (simp only: period_fields_ok_iff) simp
  have s: "the_string (lookup ?period ''start'') = t1" and e: "the_string (lookup ?period ''end'') = t2"
    by simp_all
  show ?thesis
    unfolding validate_shift_def per fields pfields s e by simp
qed

lemma validateConfig_new_period:
  assumes conf: "conforms tz config"
      and shifts: "lookup config ''shifts'' = JObj shifts"
      and i: "i < length shifts" "shifts ! i = (key, shift)"
  shows "validateConfig tz
           (set_property config ''shifts''
              (JObj (shifts[i := (key, set_property shift ''period''
                                        (JObj [(''start'', JStr t1), (''end'', JStr t2)]))]))) =
         (if \<not> timeRegex_test t1 then
            Inl (ConfigValidationError
                   (''Invalid time format for shifts.'' @ key @ ''.period.start. Must be HH:MM format.''))
          else if \<not> timeRegex_test t2 then
            Inl (ConfigValidationError
                   (''Invalid time format for shifts.'' @ key @ ''.period.end. Must be HH:MM format.''))
          else Inr ())"
proof -
  let ?shift = "set_property shift ''period'' (JObj [(''start'', JStr t1), (''end'', JStr t2)])"
  let ?shifts = "shifts[i := (key, ?shift)]"
  let ?doc = "set_property config ''shifts'' (JObj ?shifts)"
  let ?r = "validate_shift key ?shift"
  from conf obtain kvs where kvs: "config = JObj kvs"
    using array_field_of_object by (auto simp: conforms_def)
  have look: "lookup ?doc g = (if g = ''shifts'' then JObj ?shifts else lookup config g)" for g
    unfolding kvs by (rule lookup_set_property)
  from conf shifts have all_ok: "list_all shift_ok (map snd shifts)"
    by (simp add: conforms_def)
  with i have ok: "shift_ok shift"
    by (metis list_all_length length_map nth_map snd_conv)
  have r: "?r =
         (if \<not> timeRegex_test t1 then
            Inl (ConfigValidationError
                   (''Invalid time format for shifts.'' @ key @ ''.period.start. Must be HH:MM format.''))
          else if \<not> timeRegex_test t2 then
            Inl (ConfigValidationError
                   (''Invalid time format for shifts.'' @ key @ ''.period.end. Must be HH:MM format.''))
          else Inr ())"
    using ok by (rule validate_shift_new_period)
  have split: "?shifts = take i shifts @ (key, ?shift) # drop (Suc i) shifts"
    using i(1) by (rule upd_conv_take_nth_drop)
  have before: "validate_shifts (take i shifts) = Inr ()"
    using all_ok by (auto simp: validate_shifts_ok_iff list_all_iff dest: in_set_takeD)
  have after: "validate_shifts (drop (Suc i) shifts) = Inr ()"
    using all_ok by (auto simp: validate_shifts_ok_iff list_all_iff dest: in_set_dropD)
  have loop: "validate_shifts ?shifts = ?r"
    unfolding split validate_shifts_append before
    by (simp add: after split: sum.split)
  have top: "validateObjectFields ?doc
             [(''calendars'', ''array''), (''shifts'', ''object''), (''employees'', ''object''),
              (''deletion_policy'', ''string''), (''event_handling'', ''object''),
              (''timezone'', ''string'')]
             ''config'' = Inr ()"
    using conf by (simp only: top_level_ok_iff look) (simp add: conforms_def)
  have dp: "validateEnum (lookup ?doc ''deletion_policy'')
             [''full_sync'', ''preserve_manual'', ''append_only''] ''deletion_policy'' = Inr ()"
    using conf by (simp only: validateEnum_ok_iff look) (simp add: conforms_def)
  have cals: "validate_calendars (array_entries (lookup ?doc ''calendars'')) = Inr ()"
    using conf by (simp only: validate_calendars_first_error calendars_ok_iff look)
      (simp add: conforms_def)
  have entries: "Object_entries (lookup ?doc ''shifts'') = ?shifts"
    by (simp add: look)
  show ?thesis
  proof (cases ?r)
    case (Inl e)
    have "validateConfig tz ?doc = Inl e"
      unfolding validateConfig_def top dp cals entries loop Inl by simp
    with Inl r show ?thesis by simp
  next
    case (Inr u)
    then have "list_all shift_ok (map snd ?shifts)"
      using loop by (simp add: validate_shifts_ok_iff)
    then have "list_all shift_ok (map snd (Object_entries (lookup ?doc ''shifts'')))"
      by (simp only: entries)
    then have "conforms tz ?doc"
      using conf unfolding conforms_def by (simp only: look) simp
    then have "validateConfig tz ?doc = Inr ()" by (simp only: validateConfig_ok_iff)
    with Inr r show ?thesis by simp
  qed
qed

text \<open>
  C5. Take a valid document and give the period of any one of its shifts any two strings
  as start and end. The validator accepts the result exactly when both strings match the
  pattern; a start that does not match gives "Invalid time format for
  shifts.<key>.period.start. Must be HH:MM format.", otherwise an end that does not
  match gives the same message for \<^verbatim>\<open>end\<close>. The same holds of the body of the
  loop for any shift whose fields and period have the declared kinds. The pattern matches
  exactly the strings HH:MM with HH from 00 to 23 and MM from 00 to 59: "08:00", "23:59"
  and "00:00" match, "8:00", "24:00", "12:60" and "8:0" do not. The two tests are
  independent, so nothing relates start to end.
\<close>

theorem shift_period_time_format:
  "(conforms tz config \<and> lookup config ''shifts'' = JObj shifts \<and>
    i < length shifts \<and> shifts ! i = (name, entry) \<longrightarrow>
      validateConfig tz
        (set_property config ''shifts''
           (JObj (shifts[i := (name, set_property entry ''period''
                                      (JObj [(''start'', JStr a), (''end'', JStr b)]))]))) =
        (if \<not> timeRegex_test a then
           Inl (ConfigValidationError
                  (''Invalid time format for shifts.'' @ name @ ''.period.start. Must be HH:MM format.''))
         else if \<not> timeRegex_test b then
           Inl (ConfigValidationError
                  (''Invalid time format for shifts.'' @ name @ ''.period.end. Must be HH:MM format.''))
         else Inr ())) \<and>
   (validateObjectFields shift
      [(''label'', ''string''), (''color'', ''string''), (''period'', ''object'')]
      (''shifts.'' @ key) = Inr () \<and>
    validateObjectFields (lookup shift ''period'')
      [(''start'', ''string''), (''end'', ''string'')]
      (''shifts.'' @ key @ ''.period'') = Inr () \<longrightarrow>
    (\<exists>t1 t2.
       lookup (lookup shift ''period'') ''start'' = JStr t1 \<and>
       lookup (lookup shift ''period'') ''end'' = JStr t2 \<and>
       validate_shift key shift =
         (if \<not> timeRegex_test t1 then
            Inl (ConfigValidationError
                   (''Invalid time format for shifts.'' @ key @ ''.period.start. Must be HH:MM format.''))
          else if \<not> timeRegex_test t2 then
            Inl (ConfigValidationError
                   (''Invalid time format for shifts.'' @ key @ ''.period.end. Must be HH:MM format.''))
          else Inr ()))) \<and>
   (timeRegex_test s \<longleftrightarrow>
      (\<exists>h m. h < 24 \<and> m < 60 \<and> s = two_digits h @ '':'' @ two_digits m)) \<and>
   timeRegex_test ''08:00'' \<and> timeRegex_test ''23:59'' \<and> timeRegex_test ''00:00'' \<and>
   \<not> timeRegex_test ''8:00'' \<and> \<not> timeRegex_test ''24:00'' \<and>
   \<not> timeRegex_test ''12:60'' \<and> \<not> timeRegex_test ''8:0''"
proof (intro conjI impI)
  assume "conforms tz config \<and> lookup config ''shifts'' = JObj shifts \<and>
    i < length shifts \<and> shifts ! i = (name, entry)"
  then show "validateConfig tz
        (set_property config ''shifts''
           (JObj (shifts[i := (name, set_property entry ''period''
                                      (JObj [(''start'', JStr a), (''end'', JStr b)]))]))) =
        (if \<not> timeRegex_test a then
           Inl (ConfigValidationError
                  (''Invalid time format for shifts.'' @ name @ ''.period.start. Must be HH:MM format.''))
         else if \<not> timeRegex_test b then
           Inl (ConfigValidationError
                  (''Invalid time format for shifts.'' @ name @ ''.period.end. Must be HH:MM format.''))
         else Inr ())"
    using validateConfig_new_period [of tz config shifts i name entry a b] by blast
next
  assume ok: "validateObjectFields shift
      [(''label'', ''string''), (''color'', ''string''), (''period'', ''object'')]
      (''shifts.'' @ key) = Inr () \<and>
    validateObjectFields (lookup shift ''period'')
      [(''start'', ''string''), (''end'', ''string'')]
      (''shifts.'' @ key @ ''.period'') = Inr ()"
  let ?t1 = "the_string (lookup (lookup shift ''period'') ''start'')"
  let ?t2 = "the_string (lookup (lookup shift ''period'') ''end'')"
  from ok have "is_string (lookup (lookup shift ''period'') ''start'')"
    and "is_string (lookup (lookup shift ''period'') ''end'')"
    by (simp_all add: period_fields_ok_iff)
  then have s: "lookup (lookup shift ''period'') ''start'' = JStr ?t1"
    and e: "lookup (lookup shift ''period'') ''end'' = JStr ?t2"
    using is_string_the_string by blast+
  have "validate_shift key shift =
         (if \<not> timeRegex_test ?t1 then
            Inl (ConfigValidationError
                   (''Invalid time format for shifts.'' @ key @ ''.period.start. Must be HH:MM format.''))
          else if \<not> timeRegex_test ?t2 then
            Inl (ConfigValidationError
                   (''Invalid time format for shifts.'' @ key @ ''.period.end. Must be HH:MM format.''))
          else Inr ())"
    using ok by (simp add: validate_shift_def)
  with s e show "\<exists>t1 t2.
       lookup (lookup shift ''period'') ''start'' = JStr t1 \<and>
       lookup (lookup shift ''period'') ''end'' = JStr t2 \<and>
       validate_shift key shift =
         (if \<not> timeRegex_test t1 then
            Inl (ConfigValidationError
                   (''Invalid time format for shifts.'' @ key @ ''.period.start. Must be HH:MM format.''))
          else if \<not> timeRegex_test t2 then
            Inl (ConfigValidationError
                   (''Invalid time format for shifts.'' @ key @ ''.period.end. Must be HH:MM format.''))
          else Inr ())"
    by blast
next
  show "timeRegex_test s \<longleftrightarrow>
      (\<exists>h m. h < 24 \<and> m < 60 \<and> s = two_digits h @ '':'' @ two_digits m)"
    by (rule timeRegex_hhmm)
  show "timeRegex_test ''08:00''" by code_simp
  show "timeRegex_test ''23:59''" by code_simp
  show "timeRegex_test ''00:00''" by code_simp
  show "\<not> timeRegex_test ''8:00''" by code_simp
  show "\<not> timeRegex_test ''24:00''" by code_simp
  show "\<not> timeRegex_test ''12:60''" by code_simp
  show "\<not> timeRegex_test ''8:0''" by code_simp
qed

text \<open>
  The valid document of the test suite, with its night shift from 22:00 to 06:00, is
  accepted; with "8:00" as the start of its morning shift it is rejected with the message
  for that start.
\<close>

theorem shift_period_time_format_witness:
  "conforms sample_tz validConfig \<and>
   validateConfig sample_tz validConfig = Inr () \<and>
   lookup (lookup (lookup (lookup validConfig ''shifts'') ''N'') ''period'') ''start''
     = JStr ''22:00'' \<and>
   lookup (lookup (lookup (lookup validConfig ''shifts'') ''N'') ''period'') ''end''
     = JStr ''06:00'' \<and>
   validateConfig sample_tz earlyStart =
     Inl (ConfigValidationError
            ''Invalid time format for shifts.M.period.start. Must be HH:MM format.'') \<and>
   validate_shift ''N'' nightShift = Inr () \<and>
   validate_shift ''M'' earlyShift =
     Inl (ConfigValidationError
            ''Invalid time format for shifts.M.period.start. Must be HH:MM format.'')"
proof -
  let ?M = "JObj [(''label'', JStr ''Morning Shift''), (''color'', JStr ''#FFD700''),
                  (''period'', JObj [(''start'', JStr ''08:00''), (''end'', JStr ''16:00'')])]"
  let ?shifts = "[(''M'', ?M), (''N'', nightShift)]"
  have conf: "conforms sample_tz validConfig" by code_simp
  have sh: "lookup validConfig ''shifts'' = JObj ?shifts" by code_simp
  have s22: "lookup (lookup (lookup (lookup validConfig ''shifts'') ''N'') ''period'') ''start''
     = JStr ''22:00''" by code_simp
  have e06: "lookup (lookup (lookup (lookup validConfig ''shifts'') ''N'') ''period'') ''end''
     = JStr ''06:00''" by code_simp
  have i0: "0 < length ?shifts" "?shifts ! 0 = (''M'', ?M)" by simp_all
  have i1: "1 < length ?shifts" "?shifts ! 1 = (''N'', nightShift)" by simp_all
  have t: "timeRegex_test ''22:00''" "timeRegex_test ''06:00''" "\<not> timeRegex_test ''8:00''"
    by code_simp+
  have d1: "set_property validConfig ''shifts''
           (JObj (?shifts[1 := (''N'', set_property nightShift ''period''
                                      (JObj [(''start'', JStr ''22:00''), (''end'', JStr ''06:00'')]))]))
      = validConfig" by code_simp
  have d0: "set_property validConfig ''shifts''
           (JObj (?shifts[0 := (''M'', set_property ?M ''period''
                                      (JObj [(''start'', JStr ''8:00''), (''end'', JStr ''16:00'')]))]))
      = earlyStart" by code_simp
  from shift_period_time_format [where tz = sample_tz and config = validConfig
      and shifts = ?shifts and i = 1 and name = "''N''" and entry = nightShift
      and a = "''22:00''" and b = "''06:00''"] conf sh i1 t
  have night_doc: "validateConfig sample_tz validConfig = Inr ()"
    unfolding d1 by simp
  from shift_period_time_format [where tz = sample_tz and config = validConfig
      and shifts = ?shifts and i = 0 and name = "''M''" and entry = ?M
      and a = "''8:00''" and b = "''16:00''"] conf sh i0 t
  have early_doc: "validateConfig sample_tz earlyStart =
     Inl (ConfigValidationError
            ''Invalid time format for shifts.M.period.start. Must be HH:MM format.'')"
    unfolding d0 by simp

  have n1: "validateObjectFields nightShift
      [(''label'', ''string''), (''color'', ''string''), (''period'', ''object'')]
      (''shifts.'' @ ''N'') = Inr ()" by code_simp
  have n2: "validateObjectFields (lookup nightShift ''period'')
      [(''start'', ''string''), (''end'', ''string'')]
      (''shifts.'' @ ''N'' @ ''.period'') = Inr ()" by code_simp
  have n3: "lookup (lookup nightShift ''period'') ''start'' = JStr ''22:00''" by code_simp
  have n4: "lookup (lookup nightShift ''period'') ''end'' = JStr ''06:00''" by code_simp
  have n5: "timeRegex_test ''22:00''" "timeRegex_test ''06:00''" by code_simp+
  from shift_period_time_format [where shift = nightShift and key = "''N''"] n1 n2
  obtain t1 t2 where
    "lookup (lookup nightShift ''period'') ''start'' = JStr t1"
    "lookup (lookup nightShift ''period'') ''end'' = JStr t2"
    "validate_shift ''N'' nightShift =
         (if \<not> timeRegex_test t1 then
            Inl (ConfigValidationError
                   (''Invalid time format for shifts.'' @ ''N'' @ ''.period.start. Must be HH:MM format.''))
          else if \<not> timeRegex_test t2 then
            Inl (ConfigValidationError
                   (''Invalid time format for shifts.'' @ ''N'' @ ''.period.end. Must be HH:MM format.''))
          else Inr ())"
    by blast
  with n3 n4 n5 have night: "validate_shift ''N'' nightShift = Inr ()" by simp
  have m1: "validateObjectFields earlyShift
      [(''label'', ''string''), (''color'', ''string''), (''period'', ''object'')]
      (''shifts.'' @ ''M'') = Inr ()" by code_simp
  have m2: "validateObjectFields (lookup earlyShift ''period'')
      [(''start'', ''string''), (''end'', ''string'')]
      (''shifts.'' @ ''M'' @ ''.period'') = Inr ()" by code_simp
  have m3: "lookup (lookup earlyShift ''period'') ''start'' = JStr ''8:00''" by code_simp
  have m5: "\<not> timeRegex_test ''8:00''" by code_simp
  from shift_period_time_format [where shift = earlyShift and key = "''M''"] m1 m2
  obtain t1 t2 where
    "lookup (lookup earlyShift ''period'') ''start'' = JStr t1"
    "validate_shift ''M'' earlyShift =
         (if \<not> timeRegex_test t1 then
            Inl (ConfigValidationError
                   (''Invalid time format for shifts.'' @ ''M'' @ ''.period.start. Must be HH:MM format.''))
          else if \<not> timeRegex_test t2 then
            Inl (ConfigValidationError
                   (''Invalid time format for shifts.'' @ ''M'' @ ''.period.end. Must be HH:MM format.''))
          else Inr ())"
    by blast
  with m3 m5 have early: "validate_shift ''M'' earlyShift =
     Inl (ConfigValidationError
            ''Invalid time format for shifts.M.period.start. Must be HH:MM format.'')"
    by simp
  from conf night_doc s22 e06 early_doc night early show ?thesis by blast
qed

end
